theory Spec2Isabelle
  imports Main "HOL-Library.Word"
begin

section \<open>The recipe editor page of the Telegram web app: drafts of unsaved edits\<close>

text \<open>
  The model follows the second script of \<^verbatim>\<open>backend/web/webapp/edit-description.js\<close>
  (the page with the title input and the category select). The page keeps the unsaved
  title and category in \<^verbatim>\<open>sessionStorage\<close> and \<^verbatim>\<open>localStorage\<close> under one key, pushes
  them to a server-side draft cache before it hands over to a sibling page, and puts
  them back into the form when the page is shown again.

  The whole page is one record; every function of the script takes the page and returns
  the changed page. What the browser and the server answer (the outcome of each
  \<^verbatim>\<open>fetch\<close>, the clock) is an argument of the function that asks.
\<close>

subsection \<open>JavaScript values the script computes with\<close>

text \<open>
  Numbers are the recipe id and category ids: integers, and \<^verbatim>\<open>NaN\<close> where \<^verbatim>\<open>Number(...)\<close>
  is applied to something that is not numeric. Fractions and infinities are not
  modelled.
\<close>

datatype jsnum = NaN | Fin int

fun truthy :: "jsnum \<Rightarrow> bool" where
  "truthy NaN = False"
| "truthy (Fin k) = (k \<noteq> 0)"

fun isFinite :: "jsnum \<Rightarrow> bool" where
  "isFinite NaN = False"
| "isFinite (Fin k) = True"

definition digit :: "nat \<Rightarrow> char" where
  "digit d = ''0123456789'' ! d"

function string_of_nat :: "nat \<Rightarrow> string" where
  "string_of_nat n =
     (if n < 10 then [digit n] else string_of_nat (n div 10) @ [digit (n mod 10)])"
  by pat_completeness auto
termination
  by (relation "measure id") auto

text \<open>\<^verbatim>\<open>String(n)\<close> for the numbers above.\<close>

fun String_num :: "jsnum \<Rightarrow> string" where
  "String_num NaN = ''NaN''"
| "String_num (Fin k) =
     (if k < 0 then CHR ''-'' # string_of_nat (nat (- k)) else string_of_nat (nat k))"

text \<open>
  A JavaScript string is a list of UTF-16 code units. The titles are such strings; the
  storage keys and the texts of errors, which the script only builds and passes on, are
  kept as \<^typ>\<open>string\<close>. \<open>js\<close> gives the JavaScript string of an ASCII literal.
\<close>

type_synonym jsstring = "16 word list"

definition js :: "string \<Rightarrow> jsstring" where
  "js s = map of_char s"

text \<open>
  \<^verbatim>\<open>s.trim()\<close> removes white space and line terminators at both ends: the code units
  U+0009 to U+000D, U+0020, U+00A0, U+1680, U+2000 to U+200A, U+2028, U+2029, U+202F,
  U+205F, U+3000 and U+FEFF. All of them are single code units.
\<close>

definition is_space :: "16 word \<Rightarrow> bool" where
  "is_space c =
     (c \<in> set [0x09, 0x0A, 0x0B, 0x0C, 0x0D, 0x20, 0xA0, 0x1680, 0x2028, 0x2029, 0x202F,
                0x205F, 0x3000, 0xFEFF]
      \<or> (0x2000 \<le> c \<and> c \<le> 0x200A))"

definition trim :: "jsstring \<Rightarrow> jsstring" where
  "trim s = rev (dropWhile is_space (rev (dropWhile is_space s)))"

subsection \<open>Drafts and stored strings\<close>

text \<open>
  A draft is the object that \<^verbatim>\<open>JSON.parse\<close> returns, seen through the three properties
  the script reads or writes:
  \<^item> \<open>d_title\<close> is \<open>Some s\<close> when \<^verbatim>\<open>typeof d.title === "string"\<close> and \<open>None\<close> otherwise;
  \<^item> \<open>d_category\<close> is the value of \<^verbatim>\<open>Number(d.category_id || 0)\<close>;
  \<^item> \<open>d_ts\<close> is the time stamp \<^verbatim>\<open>ts\<close>, when the object has one.
\<close>

record draft =
  d_title :: "jsstring option"
  d_category :: jsnum
  d_ts :: "int option"

text \<open>The empty object \<^verbatim>\<open>{}\<close>.\<close>

definition empty_object :: draft where
  "empty_object = \<lparr>d_title = None, d_category = Fin 0, d_ts = None\<rparr>"

text \<open>
  A JSON value, as far as the script tells values apart: falsy ones (\<^verbatim>\<open>null\<close>, \<^verbatim>\<open>false\<close>,
  \<^verbatim>\<open>0\<close>, \<^verbatim>\<open>""\<close>), truthy ones that are not objects (\<^verbatim>\<open>true\<close>, other numbers and
  strings), and objects (arrays too: \<^verbatim>\<open>typeof [] === "object"\<close>).
\<close>

datatype json = Falsy | Truthy_primitive | Object draft

text \<open>
  A string held by a storage area is represented by what \<^verbatim>\<open>JSON.parse\<close> makes of it:
  the empty string, a string that \<^verbatim>\<open>JSON.parse\<close> rejects, or the text of a JSON value.
\<close>

datatype stored = Empty_string | Unparseable | Text json

datatype error =
    SecurityError
  | QuotaExceededError
  | SyntaxError
  | No_recipe_id
  | No_init_data
  | Categories_not_array
  | Title_empty
  | Category_not_chosen
  | Api_error string

fun JSON_parse :: "stored \<Rightarrow> error + json" where
  "JSON_parse Empty_string = Inl SyntaxError"
| "JSON_parse Unparseable = Inl SyntaxError"
| "JSON_parse (Text j) = Inr j"

text \<open>\<^verbatim>\<open>JSON.stringify\<close> of the object \<^verbatim>\<open>writeDraft\<close> builds; a \<^verbatim>\<open>NaN\<close> is written as \<^verbatim>\<open>null\<close>,
  which reads back as \<^verbatim>\<open>Number(null || 0)\<close>.\<close>

definition JSON_stringify :: "jsstring \<Rightarrow> jsnum \<Rightarrow> int \<Rightarrow> stored" where
  "JSON_stringify t c ts =
     Text (Object \<lparr>d_title = Some t, d_category = (if isFinite c then c else Fin 0), d_ts = Some ts\<rparr>)"

subsection \<open>A storage area\<close>

text \<open>
  \<^verbatim>\<open>sessionStorage\<close> and \<^verbatim>\<open>localStorage\<close>: the items, whether every access throws (storage
  disabled for the page), and whether \<^verbatim>\<open>setItem\<close> throws (quota exceeded).
\<close>

record tier =
  items :: "string \<Rightarrow> stored option"
  denied :: bool
  full :: bool

definition getItem :: "tier \<Rightarrow> string \<Rightarrow> error + stored option" where
  "getItem t key = (if denied t then Inl SecurityError else Inr (items t key))"

definition setItem :: "tier \<Rightarrow> string \<Rightarrow> stored \<Rightarrow> error + tier" where
  "setItem t key val =
     (if denied t then Inl SecurityError
      else if full t then Inl QuotaExceededError
      else Inr (t\<lparr>items := (items t)(key \<mapsto> val)\<rparr>))"

definition removeItem :: "tier \<Rightarrow> string \<Rightarrow> error + tier" where
  "removeItem t key =
     (if denied t then Inl SecurityError else Inr (t\<lparr>items := (items t)(key := None)\<rparr>))"

subsection \<open>The page\<close>

text \<open>
  The state the script reads and writes:
  \<^item> \<open>recipeId\<close>, from the query string; \<open>tg_present\<close> and \<open>initData\<close>, whether
    \<^verbatim>\<open>window.Telegram.WebApp\<close> and its \<^verbatim>\<open>initData\<close> are there;
  \<^item> \<open>title_value\<close>, the value of the input \<^verbatim>\<open>$title\<close>, taken to hold any string;
  \<^item> \<open>category_options\<close> and \<open>category_value\<close>, the options and the value of the select
    \<^verbatim>\<open>$category\<close>. Option values are \<^verbatim>\<open>String(c.id)\<close> for the integer ids of the category
    list; an option is represented by its id, and the value of the select by the id of
    the selected option (\<open>None\<close> for the value \<^verbatim>\<open>""\<close> of a select with no selected option);
  \<^item> the two storage areas;
  \<^item> \<open>err_text\<close>, \<open>ok_text\<close> and \<open>busy\<close>, what \<^verbatim>\<open>setErr\<close>, \<^verbatim>\<open>setOk\<close> and \<^verbatim>\<open>setBusy\<close> show;
  \<^item> \<open>requests\<close>, the requests sent through \<^verbatim>\<open>api\<close>, in order; \<open>sent_data\<close>, the recipe
    ids signalled to the host by \<^verbatim>\<open>tg.sendData\<close>; \<open>close_scheduled\<close>, whether the timer
    that closes the web app is set; \<open>href\<close>, the page the window is on.

  Both form elements exist: the script calls \<^verbatim>\<open>addEventListener\<close> on them when it starts.
\<close>

datatype request =
    GET_categories
  | GET_recipe jsnum
  | PATCH_recipe jsnum jsstring jsnum
  | PUT_draft jsnum jsstring "jsnum option"
  | GET_draft jsnum

datatype message = Nothing | Saved | Failure error

datatype location = Edit_recipe | Edit_description jsnum | Edit_ingredients jsnum

record page =
  recipeId :: jsnum
  tg_present :: bool
  initData :: bool
  title_value :: jsstring
  category_options :: "int list"
  category_value :: "int option"
  sessionStorage :: tier
  localStorage :: tier
  err_text :: message
  ok_text :: message
  busy :: bool
  requests :: "request list"
  sent_data :: "jsnum list"
  close_scheduled :: bool
  href :: location

definition draftKey :: "page \<Rightarrow> string" where
  "draftKey p = ''sm_draft_recipe_'' @ String_num (recipeId p)"

definition storageGet :: "string \<Rightarrow> page \<Rightarrow> stored option" where
  "storageGet key p =
     (case getItem (sessionStorage p) key of
        Inr (Some v) \<Rightarrow> Some v
      | _ \<Rightarrow>
        (case getItem (localStorage p) key of
           Inr r \<Rightarrow> r
         | Inl e \<Rightarrow> None))"

definition storageSet :: "string \<Rightarrow> stored \<Rightarrow> page \<Rightarrow> page" where
  "storageSet key val p =
     (let p1 = (case setItem (sessionStorage p) key val of
                  Inr t \<Rightarrow> p\<lparr>sessionStorage := t\<rparr>
                | Inl e \<Rightarrow> p)
      in (case setItem (localStorage p1) key val of
            Inr t \<Rightarrow> p1\<lparr>localStorage := t\<rparr>
          | Inl e \<Rightarrow> p1))"

definition storageRemove :: "string \<Rightarrow> page \<Rightarrow> page" where
  "storageRemove key p =
     (let p1 = (case removeItem (sessionStorage p) key of
                  Inr t \<Rightarrow> p\<lparr>sessionStorage := t\<rparr>
                | Inl e \<Rightarrow> p)
      in (case removeItem (localStorage p1) key of
            Inr t \<Rightarrow> p1\<lparr>localStorage := t\<rparr>
          | Inl e \<Rightarrow> p1))"

text \<open>The body of the \<^verbatim>\<open>try\<close> block of \<^verbatim>\<open>readDraft\<close>: \<^verbatim>\<open>JSON.parse\<close> may throw.\<close>

definition readDraft_try :: "page \<Rightarrow> error + draft option" where
  "readDraft_try p =
     (case storageGet (draftKey p) p of
        None \<Rightarrow> Inr None
      | Some Empty_string \<Rightarrow> Inr None
      | Some raw \<Rightarrow>
        (case JSON_parse raw of
           Inl e \<Rightarrow> Inl e
         | Inr Falsy \<Rightarrow> Inr None
         | Inr Truthy_primitive \<Rightarrow> Inr None
         | Inr (Object v) \<Rightarrow> Inr (Some v)))"

definition readDraft :: "page \<Rightarrow> draft option" where
  "readDraft p = (case readDraft_try p of Inl e \<Rightarrow> None | Inr r \<Rightarrow> r)"

subsection \<open>Putting a draft into the form, and writing one\<close>

text \<open>\<^verbatim>\<open>Number($category?.value || 0)\<close>.\<close>

definition category_number :: "page \<Rightarrow> jsnum" where
  "category_number p = (case category_value p of None \<Rightarrow> Fin 0 | Some n \<Rightarrow> Fin n)"

text \<open>\<^verbatim>\<open>Array.from($category.options || []).some((o) => String(o.value) === String(n))\<close>.\<close>

fun has_option :: "page \<Rightarrow> jsnum \<Rightarrow> bool" where
  "has_option p NaN = False"
| "has_option p (Fin n) = (n \<in> set (category_options p))"

text \<open>
  The setter of \<^verbatim>\<open>$category.value\<close>: the first option with that value becomes the selected
  one; when there is none, no option is selected and the value reads \<^verbatim>\<open>""\<close>.
\<close>

fun set_category_value :: "jsnum \<Rightarrow> page \<Rightarrow> page" where
  "set_category_value NaN p = p\<lparr>category_value := None\<rparr>"
| "set_category_value (Fin n) p =
     p\<lparr>category_value := (if n \<in> set (category_options p) then Some n else None)\<rparr>"

definition restoreDraftIntoForm :: "page \<Rightarrow> page" where
  "restoreDraftIntoForm p =
     (case readDraft p of
        None \<Rightarrow> p
      | Some d \<Rightarrow>
        (let p1 = (case d_title d of
                     Some s \<Rightarrow> if trim s \<noteq> [] then p\<lparr>title_value := s\<rparr> else p
                   | None \<Rightarrow> p);
             draftCat = d_category d
         in if truthy draftCat
            then (if has_option p1 draftCat then set_category_value draftCat p1 else p1)
            else p1))"

definition writeDraft :: "int \<Rightarrow> page \<Rightarrow> page" where
  "writeDraft now p =
     (if \<not> truthy (recipeId p) then p
      else
        (let prev = (case readDraft p of None \<Rightarrow> empty_object | Some d \<Rightarrow> d);
             titleNow = trim (title_value p);
             categoryIdNow = category_number p;
             title =
               (if titleNow \<noteq> [] then titleNow
                else (case d_title prev of
                        Some s \<Rightarrow> if trim s \<noteq> [] then s else []
                      | None \<Rightarrow> []));
             category_id =
               (if isFinite categoryIdNow \<and> truthy categoryIdNow then categoryIdNow
                else (if truthy (d_category prev) then d_category prev else Fin 0))
         in storageSet (draftKey p) (JSON_stringify title category_id now) p))"

definition clearDraft :: "page \<Rightarrow> page" where
  "clearDraft p = storageRemove (draftKey p) p"

subsection \<open>Requests\<close>

text \<open>
  An \<^verbatim>\<open>async\<close> function returns a promise: it stays pending for ever, is rejected with
  an error, or is fulfilled with a value. The model of an \<^verbatim>\<open>async\<close> function returns the
  outcome of its promise and the page as the function left it.

  \<^verbatim>\<open>api(path, opts)\<close> sends the request; what becomes of its promise (rejected for a
  response that is not JSON, not \<^verbatim>\<open>ok\<close> or \<^verbatim>\<open>null\<close>) is given by the caller of the model.
\<close>

datatype 'a outcome = Pending | Rejected error | Fulfilled 'a

definition api :: "request \<Rightarrow> 'a outcome \<Rightarrow> page \<Rightarrow> 'a outcome \<times> page" where
  "api r answer p = (answer, p\<lparr>requests := requests p @ [r]\<rparr>)"

definition putDraftToRedis :: "json outcome \<Rightarrow> page \<Rightarrow> unit outcome \<times> page" where
  "putDraftToRedis answer p =
     (case api (PUT_draft (recipeId p) (trim (title_value p))
                  (if truthy (category_number p) then Some (category_number p) else None))
             answer p of
        (Pending, p1) \<Rightarrow> (Pending, p1)
      | (Rejected e, p1) \<Rightarrow> (Fulfilled (), p1)
      | (Fulfilled j, p1) \<Rightarrow> (Fulfilled (), p1))"

definition getDraftFromRedis :: "json outcome \<Rightarrow> page \<Rightarrow> json outcome \<times> page" where
  "getDraftFromRedis answer p =
     (case api (GET_draft (recipeId p)) answer p of
        (Pending, p1) \<Rightarrow> (Pending, p1)
      | (Rejected e, p1) \<Rightarrow> (Fulfilled Falsy, p1)
      | (Fulfilled j, p1) \<Rightarrow> (Fulfilled j, p1))"

text \<open>The properties of a value: a primitive has neither \<^verbatim>\<open>title\<close> nor \<^verbatim>\<open>category_id\<close>.\<close>

fun properties :: "json \<Rightarrow> draft" where
  "properties (Object v) = v"
| "properties j = empty_object"

definition restoreDraftFromRedisIntoForm :: "json outcome \<Rightarrow> page \<Rightarrow> unit outcome \<times> page" where
  "restoreDraftFromRedisIntoForm answer p =
     (case getDraftFromRedis answer p of
        (Pending, p1) \<Rightarrow> (Pending, p1)
      | (Rejected e, p1) \<Rightarrow> (Rejected e, p1)
      | (Fulfilled Falsy, p1) \<Rightarrow> (Fulfilled (), p1)
      | (Fulfilled j, p1) \<Rightarrow>
        (let d = properties j;
             p2 = (case d_title d of
                     Some s \<Rightarrow> if trim s \<noteq> [] then p1\<lparr>title_value := s\<rparr> else p1
                   | None \<Rightarrow> p1);
             cid = d_category d
         in (Fulfilled (),
             if truthy cid
             then (if has_option p2 cid then set_category_value cid p2 else p2)
             else p2)))"

subsection \<open>Messages\<close>

definition setErr :: "message \<Rightarrow> page \<Rightarrow> page" where
  "setErr msg p = p\<lparr>err_text := msg, ok_text := Nothing\<rparr>"

definition setOk :: "message \<Rightarrow> page \<Rightarrow> page" where
  "setOk msg p = p\<lparr>ok_text := msg, err_text := Nothing\<rparr>"

definition setBusy :: "bool \<Rightarrow> page \<Rightarrow> page" where
  "setBusy isBusy p = p\<lparr>busy := isBusy\<rparr>"

subsection \<open>Loading and saving\<close>

text \<open>
  The answers of the server: the category list (the script checks that it is an array)
  and the recipe, with the two properties the page shows. A title that is absent or
  \<^verbatim>\<open>null\<close> is \<open>None\<close>; a category id that is absent or \<^verbatim>\<open>null\<close> is \<open>NaN\<close>, whose
  \<^verbatim>\<open>String\<close> is the value of no option, as those of \<^verbatim>\<open>null\<close> and \<^verbatim>\<open>undefined\<close> are.
\<close>

datatype categories = Not_array | Array "(int \<times> string) list"

record recipe =
  r_title :: "jsstring option"
  r_category_id :: jsnum

text \<open>
  \<^verbatim>\<open>load\<close>. The two \<^verbatim>\<open>GET\<close>s are sent together and awaited by \<^verbatim>\<open>Promise.all\<close>, whose
  outcome is \<open>both\<close>; \<open>remote\<close> is the outcome of the \<^verbatim>\<open>GET\<close> of the server-side
  draft. A select that gets its first option selects it; the setter then replaces
  that selection. The theme of the host is not modelled.
\<close>

definition load ::
  "(categories \<times> recipe) outcome \<Rightarrow> json outcome \<Rightarrow> int \<Rightarrow> page \<Rightarrow> unit outcome \<times> page" where
  "load both remote now p =
     (if \<not> truthy (recipeId p) then (Rejected No_recipe_id, p)
      else if \<not> tg_present p \<or> \<not> initData p then (Rejected No_init_data, p)
      else
        (let p1 = setBusy True p;
             p2 = p1\<lparr>requests := requests p1 @ [GET_categories, GET_recipe (recipeId p1)]\<rparr>
         in (case both of
               Pending \<Rightarrow> (Pending, p2)
             | Rejected e \<Rightarrow> (Rejected e, p2)
             | Fulfilled (cats, recipe) \<Rightarrow>
               (let p3 = setBusy False p2
                in (case cats of
                      Not_array \<Rightarrow> (Rejected Categories_not_array, p3)
                    | Array cs \<Rightarrow>
                      (let p4 = p3\<lparr>category_options := map fst cs,
                                    category_value := (case cs of [] \<Rightarrow> None | c # _ \<Rightarrow> Some (fst c))\<rparr>;
                           p5 = p4\<lparr>title_value := (case r_title recipe of None \<Rightarrow> [] | Some s \<Rightarrow> s)\<rparr>;
                           p6 = set_category_value (r_category_id recipe) p5;
                           p7 = restoreDraftIntoForm p6
                       in (case restoreDraftFromRedisIntoForm remote p7 of
                             (Pending, p8) \<Rightarrow> (Pending, p8)
                           | (Rejected e, p8) \<Rightarrow> (Rejected e, p8)
                           | (Fulfilled u, p8) \<Rightarrow>
                             (Fulfilled (),
                              if readDraft p8 = None then writeDraft now p8 else p8))))))))"

definition save :: "json outcome \<Rightarrow> page \<Rightarrow> unit outcome \<times> page" where
  "save answer p =
     (let p1 = setBusy True (setOk Nothing (setErr Nothing p));
          title = trim (title_value p1);
          categoryId = category_number p1
      in if title = [] then (Rejected Title_empty, p1)
         else if \<not> truthy categoryId then (Rejected Category_not_chosen, p1)
         else
           (case api (PATCH_recipe (recipeId p1) title categoryId) answer p1 of
              (Pending, p2) \<Rightarrow> (Pending, p2)
            | (Rejected e, p2) \<Rightarrow> (Rejected e, p2)
            | (Fulfilled j, p2) \<Rightarrow>
              (let p3 = clearDraft p2;
                   p4 = (if tg_present p3 then p3\<lparr>sent_data := sent_data p3 @ [recipeId p3]\<rparr> else p3);
                   p5 = setOk Saved p4
               in (Fulfilled (), p5\<lparr>close_scheduled := True\<rparr>))))"

subsection \<open>Event handlers\<close>

text \<open>
  The click handlers await each request they send; they are modelled as running to their
  end, or to an \<^verbatim>\<open>await\<close> that never returns.
\<close>

definition btnDesc_click :: "int \<Rightarrow> json outcome \<Rightarrow> page \<Rightarrow> page" where
  "btnDesc_click now answer p =
     (let p1 = writeDraft now p
      in (case putDraftToRedis answer p1 of
            (Pending, p2) \<Rightarrow> p2
          | (Rejected e, p2) \<Rightarrow> p2
          | (Fulfilled u, p2) \<Rightarrow> p2\<lparr>href := Edit_description (recipeId p2)\<rparr>))"

definition btnIng_click :: "int \<Rightarrow> json outcome \<Rightarrow> page \<Rightarrow> page" where
  "btnIng_click now answer p =
     (let p1 = writeDraft now p
      in (case putDraftToRedis answer p1 of
            (Pending, p2) \<Rightarrow> p2
          | (Rejected e, p2) \<Rightarrow> p2
          | (Fulfilled u, p2) \<Rightarrow> p2\<lparr>href := Edit_ingredients (recipeId p2)\<rparr>))"

definition save_click :: "json outcome \<Rightarrow> page \<Rightarrow> page" where
  "save_click answer p =
     (case save answer p of
        (Pending, p1) \<Rightarrow> p1
      | (Rejected e, p1) \<Rightarrow> setBusy False (setErr (Failure e) p1)
      | (Fulfilled u, p1) \<Rightarrow> setBusy False p1)"

text \<open>\<^verbatim>\<open>!($title?.value || "").trim()\<close>.\<close>

definition title_blank :: "page \<Rightarrow> bool" where
  "title_blank p = (trim (title_value p) = [])"

text \<open>
  What the server answers to a \<^verbatim>\<open>pageshow\<close> or \<^verbatim>\<open>visibilitychange\<close> handler: to the \<^verbatim>\<open>GET\<close>
  of the server-side draft, and to the requests of \<^verbatim>\<open>load\<close>, should the handler get that
  far. \<open>pageshow\<close> and \<open>visibilitychange\<close> are a handler and all that follows from it, with
  no other handler running in between.
\<close>

record answers =
  a_draft :: "json outcome"
  a_load_both :: "(categories \<times> recipe) outcome"
  a_load_draft :: "json outcome"
  a_now :: int

definition pageshow :: "answers \<Rightarrow> page \<Rightarrow> page" where
  "pageshow a p =
     (let p1 = restoreDraftIntoForm p
      in if title_blank p1
         then (case restoreDraftFromRedisIntoForm (a_draft a) p1 of
                 (Pending, p2) \<Rightarrow> p2
               | (r, p2) \<Rightarrow>
                 if title_blank p2
                 then snd (load (a_load_both a) (a_load_draft a) (a_now a) p2)
                 else p2)
         else p1)"

definition visibilitychange :: "bool \<Rightarrow> answers \<Rightarrow> page \<Rightarrow> page" where
  "visibilitychange hidden a p =
     (if hidden then p
      else
        (let p1 = restoreDraftIntoForm p
         in if title_blank p1
            then (case restoreDraftFromRedisIntoForm (a_draft a) p1 of
                    (Pending, p2) \<Rightarrow> p2
                  | (r, p2) \<Rightarrow>
                    if title_blank p2
                    then snd (load (a_load_both a) (a_load_draft a) (a_now a) p2)
                    else p2)
            else p1))"

text \<open>
  Neither handler awaits: \<^verbatim>\<open>restoreDraftFromRedisIntoForm()\<close> runs up to its \<^verbatim>\<open>await\<close>, which
  sends the \<^verbatim>\<open>GET\<close> of the server-side draft, and the handler returns with that promise
  pending. \<open>handler_sync\<close> is the handler up to its return. What the handler has left
  runs when the request settles, on the page as it is then: \<open>draft_settles\<close> is the rest
  of \<^verbatim>\<open>restoreDraftFromRedisIntoForm\<close> (from \<^verbatim>\<open>if (!d) return\<close> on, with \<^verbatim>\<open>null\<close> for a rejected
  request), and \<open>handler_continues\<close> is that followed by the \<^verbatim>\<open>finally\<close> callback. Between
  the return of a handler and its continuation other handlers may run; \<open>pageshow\<close> and
  \<open>visibilitychange\<close> above are the case where none does (lemma \<open>pageshow_in_two_steps\<close>).
\<close>

definition handler_sync :: "page \<Rightarrow> page" where
  "handler_sync p =
     (let p1 = restoreDraftIntoForm p
      in if title_blank p1 then snd (restoreDraftFromRedisIntoForm Pending p1) else p1)"

definition draft_settles :: "json outcome \<Rightarrow> page \<Rightarrow> page" where
  "draft_settles answer p =
     (case answer of
        Pending \<Rightarrow> p
      | Rejected e \<Rightarrow> p
      | Fulfilled Falsy \<Rightarrow> p
      | Fulfilled j \<Rightarrow>
        (let d = properties j;
             p2 = (case d_title d of
                     Some s \<Rightarrow> if trim s \<noteq> [] then p\<lparr>title_value := s\<rparr> else p
                   | None \<Rightarrow> p);
             cid = d_category d
         in if truthy cid
            then (if has_option p2 cid then set_category_value cid p2 else p2)
            else p2))"

definition handler_continues :: "answers \<Rightarrow> page \<Rightarrow> page" where
  "handler_continues a p =
     (case a_draft a of
        Pending \<Rightarrow> p
      | r \<Rightarrow>
        (let p2 = draft_settles r p
         in if title_blank p2
            then snd (load (a_load_both a) (a_load_draft a) (a_now a) p2)
            else p2))"

text \<open>The start of the page: \<^verbatim>\<open>load().catch(...).finally(...)\<close>.\<close>

definition start :: "(categories \<times> recipe) outcome \<Rightarrow> json outcome \<Rightarrow> int \<Rightarrow> page \<Rightarrow> page" where
  "start both remote now p =
     (case load both remote now p of
        (Pending, p1) \<Rightarrow> p1
      | (Rejected e, p1) \<Rightarrow> setBusy False (setErr (Failure e) p1)
      | (Fulfilled u, p1) \<Rightarrow> setBusy False p1)"

subsection \<open>Notions used in the statements\<close>

text \<open>A storage area that accepts a write.\<close>

definition writable :: "tier \<Rightarrow> bool" where
  "writable t = (\<not> denied t \<and> \<not> full t)"

text \<open>
  What \<^verbatim>\<open>restoreDraftIntoForm\<close> and \<^verbatim>\<open>restoreDraftFromRedisIntoForm\<close> do with a draft they
  have got, written once: the title is taken when it is a string that is not blank, the
  category when it is not zero and is the value of an option. The lemmas
  \<open>restoreDraftIntoForm_overlay\<close> and \<open>restoreDraftFromRedisIntoForm_overlay\<close> show that
  both functions are this.
\<close>

definition overlay :: "draft \<Rightarrow> page \<Rightarrow> page" where
  "overlay d p =
     p\<lparr>title_value :=
         (case d_title d of
            Some s \<Rightarrow> if trim s \<noteq> [] then s else title_value p
          | None \<Rightarrow> title_value p),
       category_value :=
         (case d_category d of
            Fin n \<Rightarrow> if n \<noteq> 0 \<and> n \<in> set (category_options p) then Some n else category_value p
          | NaN \<Rightarrow> category_value p)\<rparr>"

text \<open>
  The page as \<^verbatim>\<open>load\<close> has it when the values of the server are in the form and no draft
  has been laid over them yet (the lemma \<open>load_fulfilled\<close> relates \<^verbatim>\<open>load\<close> to it).
\<close>

definition server_values :: "(int \<times> string) list \<Rightarrow> recipe \<Rightarrow> page \<Rightarrow> page" where
  "server_values cs rc p =
     (let p1 = setBusy True p;
          p2 = p1\<lparr>requests := requests p1 @ [GET_categories, GET_recipe (recipeId p1)]\<rparr>;
          p3 = setBusy False p2;
          p4 = p3\<lparr>category_options := map fst cs,
                 category_value := (case cs of [] \<Rightarrow> None | c # _ \<Rightarrow> Some (fst c))\<rparr>;
          p5 = p4\<lparr>title_value := (case r_title rc of None \<Rightarrow> [] | Some s \<Rightarrow> s)\<rparr>
      in set_category_value (r_category_id rc) p5)"

text \<open>The title a draft defines: a string that is not blank.\<close>

definition defined_title :: "draft \<Rightarrow> jsstring option" where
  "defined_title d =
     (case d_title d of Some s \<Rightarrow> if trim s \<noteq> [] then Some s else None | None \<Rightarrow> None)"

text \<open>The category a draft defines for a select with the options \<open>opts\<close>: not 0, and the
  value of an option.\<close>

definition defined_category :: "int list \<Rightarrow> draft \<Rightarrow> int option" where
  "defined_category opts d =
     (case d_category d of
        Fin n \<Rightarrow> if n \<noteq> 0 \<and> n \<in> set opts then Some n else None
      | NaN \<Rightarrow> None)"

text \<open>The stored draft, or \<^verbatim>\<open>{}\<close> when \<^verbatim>\<open>readDraft\<close> finds none.\<close>

definition local_draft :: "page \<Rightarrow> draft" where
  "local_draft p = (case readDraft p of None \<Rightarrow> empty_object | Some d \<Rightarrow> d)"

text \<open>The draft of the server-side cache, or \<^verbatim>\<open>{}\<close> when it has none or the request fails.\<close>

definition remote_draft :: "json outcome \<Rightarrow> draft" where
  "remote_draft answer = (case answer of Fulfilled j \<Rightarrow> properties j | _ \<Rightarrow> empty_object)"

subsection \<open>Pages and answers for the examples\<close>

definition empty_tier :: tier where
  "empty_tier = \<lparr>items = (\<lambda>k. None), denied = False, full = False\<rparr>"

text \<open>A storage area with one item, under the draft key of the page.\<close>

definition holding :: "page \<Rightarrow> stored \<Rightarrow> tier" where
  "holding p v =
     \<lparr>items = (\<lambda>k. if k = draftKey p then Some v else None), denied = False, full = False\<rparr>"

text \<open>The page of recipe 7, opened from Telegram, before anything is loaded or stored.\<close>

definition page0 :: page where
  "page0 =
     \<lparr>recipeId = Fin 7, tg_present = True, initData = True, title_value = [],
      category_options = [1, 2, 3], category_value = Some 1,
      sessionStorage = empty_tier, localStorage = empty_tier,
      err_text = Nothing, ok_text = Nothing, busy = False, requests = [], sent_data = [],
      close_scheduled = False, href = Edit_recipe\<rparr>"

definition draft_A1 :: draft where
  "draft_A1 = \<lparr>d_title = Some (js ''A''), d_category = Fin 1, d_ts = Some 0\<rparr>"

text \<open>Both storage areas hold the draft \<^verbatim>\<open>{title: "A", category_id: 1}\<close>.\<close>

definition page_A1 :: page where
  "page_A1 =
     page0\<lparr>sessionStorage := holding page0 (Text (Object draft_A1)),
           localStorage := holding page0 (Text (Object draft_A1))\<rparr>"

text \<open>The form over that draft: the title \<^verbatim>\<open>"B"\<close> typed, the category still 1.\<close>

definition page_B :: page where
  "page_B = page_A1\<lparr>title_value := (js ''B'')\<rparr>"

text \<open>The form blanked over that draft: a no-break space (U+00A0) and a space as its
  title, no category selected.\<close>

definition page_blank :: page where
  "page_blank = page_A1\<lparr>title_value := [0xA0, 0x20], category_value := None\<rparr>"

text \<open>The title \<^verbatim>\<open>" B "\<close>, typed with a space on each side.\<close>

definition page_B_spaces :: page where
  "page_B_spaces = page_A1\<lparr>title_value := (js '' B '')\<rparr>"

text \<open>\<^verbatim>\<open>sessionStorage\<close> holds a string that is not JSON, \<^verbatim>\<open>localStorage\<close> the draft.\<close>

definition page_corrupt_tab :: page where
  "page_corrupt_tab =
     page0\<lparr>sessionStorage := holding page0 Unparseable,
           localStorage := holding page0 (Text (Object draft_A1))\<rparr>"

text \<open>\<^verbatim>\<open>sessionStorage\<close> is empty, \<^verbatim>\<open>localStorage\<close> holds the draft.\<close>

definition page_durable_only :: page where
  "page_durable_only = page0\<lparr>localStorage := holding page0 (Text (Object draft_A1))\<rparr>"

text \<open>The title \<^verbatim>\<open>"B"\<close> typed, no category selected.\<close>

definition page_no_category :: page where
  "page_no_category = page_B\<lparr>category_value := None\<rparr>"

text \<open>A stored draft with a title and a category of the list, under a blank form.\<close>

definition draft_kept :: draft where
  "draft_kept = \<lparr>d_title = Some (js ''Kept Title''), d_category = Fin 2, d_ts = Some 0\<rparr>"

definition page_kept :: page where
  "page_kept =
     page0\<lparr>sessionStorage := holding page0 (Text (Object draft_kept)),
           localStorage := holding page0 (Text (Object draft_kept))\<rparr>"

text \<open>A stored draft whose category is the value of no option.\<close>

definition draft_foreign :: draft where
  "draft_foreign = \<lparr>d_title = Some (js ''X''), d_category = Fin 9, d_ts = Some 0\<rparr>"

definition page_foreign :: page where
  "page_foreign =
     page0\<lparr>sessionStorage := holding page0 (Text (Object draft_foreign)),
           localStorage := holding page0 (Text (Object draft_foreign))\<rparr>"

text \<open>The draft of the server-side cache, and what the server answers to a handler.\<close>

definition draft_remote :: draft where
  "draft_remote = \<lparr>d_title = Some (js ''Remote Title''), d_category = Fin 0, d_ts = None\<rparr>"

definition answers_none :: answers where
  "answers_none =
     \<lparr>a_draft = Rejected (Api_error ''HTTP 404''), a_load_both = Pending,
      a_load_draft = Pending, a_now = 5\<rparr>"

definition answers_remote :: answers where
  "answers_remote = answers_none\<lparr>a_draft := Fulfilled (Object draft_remote)\<rparr>"

text \<open>The form over the draft \<^verbatim>\<open>{title: "A", category_id: 1}\<close> with a no-break space
  (U+00A0) as its title and category 1.\<close>

definition page_nbsp :: page where
  "page_nbsp = page_B\<lparr>title_value := [0xA0]\<rparr>"

text \<open>The same title over the stored title \<^verbatim>\<open>"Kept Title"\<close>.\<close>

definition page_kept_nbsp :: page where
  "page_kept_nbsp = page_kept\<lparr>title_value := [0xA0]\<rparr>"

text \<open>A stored draft whose title is a no-break space, under a blank form.\<close>

definition draft_nbsp :: draft where
  "draft_nbsp = \<lparr>d_title = Some [0xA0], d_category = Fin 0, d_ts = Some 0\<rparr>"

definition page_nbsp_draft :: page where
  "page_nbsp_draft =
     page0\<lparr>sessionStorage := holding page0 (Text (Object draft_nbsp)),
           localStorage := holding page0 (Text (Object draft_nbsp))\<rparr>"

text \<open>A draft whose title is a no-break space and whose category is the value of no
  option.\<close>

definition draft_foreign_nbsp :: draft where
  "draft_foreign_nbsp = \<lparr>d_title = Some [0xA0], d_category = Fin 9, d_ts = None\<rparr>"

text \<open>A server-side draft with a category of the list.\<close>

definition draft_remote_1 :: draft where
  "draft_remote_1 = \<lparr>d_title = Some (js ''Remote Title''), d_category = Fin 1, d_ts = None\<rparr>"

text \<open>The answers of the server to \<^verbatim>\<open>load\<close>.\<close>

definition cats_example :: "(int \<times> string) list" where
  "cats_example = [(1, ''Soups''), (2, ''Salads''), (3, ''Desserts'')]"

definition recipe_example :: recipe where
  "recipe_example = \<lparr>r_title = Some (js ''Server Title''), r_category_id = Fin 3\<rparr>"

definition recipe_spaced :: recipe where
  "recipe_spaced = \<lparr>r_title = Some (js ''Borscht'' @ [0xA0]), r_category_id = Fin 2\<rparr>"

section \<open>Properties\<close>

subsection \<open>Reading the stored draft\<close>

lemma readDraft_cong:
  assumes "recipeId q = recipeId p" "sessionStorage q = sessionStorage p"
    "localStorage q = localStorage p"
  shows "readDraft q = readDraft p"
proof -
  have k: "draftKey q = draftKey p"
    using assms by (simp add: draftKey_def)
  have "storageGet (draftKey p) q = storageGet (draftKey p) p"
    unfolding storageGet_def assms ..
  with k have "readDraft_try q = readDraft_try p"
    by (simp add: readDraft_try_def)
  then show ?thesis
    by (simp add: readDraft_def)
qed

subsection \<open>Both restoring functions are the overlay\<close>

lemma restoreDraftIntoForm_overlay:
  "restoreDraftIntoForm p = (case readDraft p of None \<Rightarrow> p | Some d \<Rightarrow> overlay d p)"
proof (cases "readDraft p")
  case None
  then show ?thesis by (simp add: restoreDraftIntoForm_def)
next
  case (Some d)
  then show ?thesis
    by (cases "d_category d")
      (simp_all add: restoreDraftIntoForm_def overlay_def Let_def split: option.splits)
qed

lemma restoreDraftFromRedisIntoForm_overlay:
  "restoreDraftFromRedisIntoForm answer p =
     (case answer of
        Pending \<Rightarrow> (Pending, p\<lparr>requests := requests p @ [GET_draft (recipeId p)]\<rparr>)
      | Rejected e \<Rightarrow> (Fulfilled (), p\<lparr>requests := requests p @ [GET_draft (recipeId p)]\<rparr>)
      | Fulfilled j \<Rightarrow>
          (Fulfilled (),
           overlay (properties j) (p\<lparr>requests := requests p @ [GET_draft (recipeId p)]\<rparr>)))"
proof (cases answer)
  case Pending
  then show ?thesis
    by (simp add: restoreDraftFromRedisIntoForm_def getDraftFromRedis_def api_def)
next
  case (Rejected e)
  then show ?thesis
    by (simp add: restoreDraftFromRedisIntoForm_def getDraftFromRedis_def api_def)
next
  case (Fulfilled j)
  show ?thesis
  proof (cases j)
    case Falsy
    with Fulfilled show ?thesis
      by (simp add: restoreDraftFromRedisIntoForm_def getDraftFromRedis_def api_def
          overlay_def empty_object_def)
  next
    case Truthy_primitive
    with Fulfilled show ?thesis
      by (simp add: restoreDraftFromRedisIntoForm_def getDraftFromRedis_def api_def
          overlay_def empty_object_def)
  next
    case (Object d)
    with Fulfilled show ?thesis
      by (cases "d_category d")
        (simp_all add: restoreDraftFromRedisIntoForm_def getDraftFromRedis_def api_def
          overlay_def Let_def split: option.splits)
  qed
qed

lemma overlay_idem: "overlay d (overlay d p) = overlay d p"
  by (simp add: overlay_def split: option.splits jsnum.splits)

lemma overlay_frame [simp]:
  "recipeId (overlay d p) = recipeId p"
  "sessionStorage (overlay d p) = sessionStorage p"
  "localStorage (overlay d p) = localStorage p"
  "requests (overlay d p) = requests p"
  "category_options (overlay d p) = category_options p"
  "tg_present (overlay d p) = tg_present p"
  "initData (overlay d p) = initData p"
  by (simp_all add: overlay_def)

lemma readDraft_overlay [simp]: "readDraft (overlay d p) = readDraft p"
  by (rule readDraft_cong) simp_all

subsection \<open>Evaluating the examples\<close>

lemmas example_defs =
  page0_def page_A1_def page_B_def page_blank_def page_B_spaces_def page_corrupt_tab_def
  page_durable_only_def page_no_category_def holding_def empty_tier_def draft_A1_def

lemmas storage_defs =
  readDraft_def readDraft_try_def storageGet_def storageSet_def storageRemove_def
  getItem_def setItem_def removeItem_def draftKey_def digit_def writable_def

lemma js_eq_Nil [simp]: "js s = [] \<longleftrightarrow> s = []"
  by (simp add: js_def)

lemma js_examples [simp]:
  "js ''B'' \<noteq> js '' B ''" "js ''Borscht'' \<noteq> js ''Borscht'' @ [0xA0]"
  by (simp_all add: js_def)

lemma trim_examples:
  "trim [] = []" "trim [0xA0, 0x20] = []" "trim [0xA0] = []" "trim (js ''A'') = (js ''A'')" "trim (js ''B'') = (js ''B'')"
  "trim (js '' B '') = (js ''B'')"
  by (simp_all add: trim_def is_space_def js_def)

subsection \<open>Frame lemmas\<close>

lemma draftKey_cong: "recipeId q = recipeId p \<Longrightarrow> draftKey q = draftKey p"
  by (simp add: draftKey_def)

lemma category_number_cong:
  "category_value q = category_value p \<Longrightarrow> category_number q = category_number p"
  by (simp add: category_number_def)

lemma message_frame [simp]:
  "recipeId (setErr m p) = recipeId p" "recipeId (setOk m p) = recipeId p"
  "recipeId (setBusy b p) = recipeId p"
  "sessionStorage (setErr m p) = sessionStorage p" "sessionStorage (setOk m p) = sessionStorage p"
  "sessionStorage (setBusy b p) = sessionStorage p"
  "localStorage (setErr m p) = localStorage p" "localStorage (setOk m p) = localStorage p"
  "localStorage (setBusy b p) = localStorage p"
  "requests (setErr m p) = requests p" "requests (setOk m p) = requests p"
  "requests (setBusy b p) = requests p"
  "title_value (setErr m p) = title_value p" "title_value (setOk m p) = title_value p"
  "title_value (setBusy b p) = title_value p"
  "category_value (setErr m p) = category_value p" "category_value (setOk m p) = category_value p"
  "category_value (setBusy b p) = category_value p"
  "category_options (setErr m p) = category_options p"
  "category_options (setOk m p) = category_options p"
  "category_options (setBusy b p) = category_options p"
  "tg_present (setErr m p) = tg_present p" "tg_present (setOk m p) = tg_present p"
  "tg_present (setBusy b p) = tg_present p"
  "initData (setErr m p) = initData p" "initData (setOk m p) = initData p"
  "initData (setBusy b p) = initData p"
  "href (setErr m p) = href p" "href (setOk m p) = href p"
  "href (setBusy b p) = href p"
  "err_text (setErr m p) = m" "err_text (setBusy b p) = err_text p"
  by (simp_all add: setErr_def setOk_def setBusy_def)

subsection \<open>Writing to and removing from both storage areas\<close>

lemma storageSet_writable:
  assumes "writable (sessionStorage p)" "writable (localStorage p)"
  shows "storageSet k v p =
     p\<lparr>sessionStorage := (sessionStorage p)\<lparr>items := (items (sessionStorage p))(k \<mapsto> v)\<rparr>,
       localStorage := (localStorage p)\<lparr>items := (items (localStorage p))(k \<mapsto> v)\<rparr>\<rparr>"
  using assms by (simp add: storageSet_def setItem_def writable_def Let_def)

lemma readDraft_tab_item:
  assumes "\<not> denied (sessionStorage p)"
    and "items (sessionStorage p) (draftKey p) = Some (Text (Object d))"
  shows "readDraft p = Some d"
  using assms by (simp add: readDraft_def readDraft_try_def storageGet_def getItem_def)

lemma readDraft_storageRemove: "readDraft (storageRemove (draftKey p) p) = None"
proof -
  let ?q = "storageRemove (draftKey p) p"
  have k: "draftKey ?q = draftKey p"
    by (rule draftKey_cong) (simp add: storageRemove_def removeItem_def Let_def)
  have "storageGet (draftKey p) ?q = None"
    by (simp add: storageGet_def storageRemove_def removeItem_def getItem_def Let_def)
  with k show ?thesis
    by (simp add: readDraft_def readDraft_try_def)
qed

lemma storageRemove_items:
  "\<not> denied (sessionStorage p) \<Longrightarrow> items (sessionStorage (storageRemove k p)) k = None"
  "\<not> denied (localStorage p) \<Longrightarrow> items (localStorage (storageRemove k p)) k = None"
  by (simp_all add: storageRemove_def removeItem_def Let_def)

text \<open>What \<^verbatim>\<open>writeDraft\<close> hands to \<^verbatim>\<open>storageSet\<close>.\<close>

lemma writeDraft_writes:
  assumes "truthy (recipeId p)"
  shows "\<exists>t c.
      writeDraft now p =
        storageSet (draftKey p)
          (Text (Object \<lparr>d_title = Some t, d_category = c, d_ts = Some now\<rparr>)) p
    \<and> t = (if \<not> title_blank p then trim (title_value p)
           else (case readDraft p of
                   Some prev \<Rightarrow>
                     (case d_title prev of
                        Some s \<Rightarrow> if trim s \<noteq> [] then s else []
                      | None \<Rightarrow> [])
                 | None \<Rightarrow> []))
    \<and> c = (if truthy (category_number p) then category_number p
           else (case readDraft p of
                   Some prev \<Rightarrow> if truthy (d_category prev) then d_category prev else Fin 0
                 | None \<Rightarrow> Fin 0))"
proof -
  have fin: "isFinite (category_number p)"
    by (simp add: category_number_def split: option.splits)
  have fin2: "isFinite c" if "truthy c" for c
    using that by (cases c) simp_all
  show ?thesis
    using assms fin fin2
    by (simp add: writeDraft_def Let_def JSON_stringify_def title_blank_def empty_object_def
        split: option.splits)
qed

subsection \<open>Saving\<close>

lemma save_rejected_locally:
  assumes "title_blank p \<or> \<not> truthy (category_number p)"
  shows "save answer p =
     (Rejected (if title_blank p then Title_empty else Category_not_chosen),
      setBusy True (setOk Nothing (setErr Nothing p)))"
proof -
  have "category_number (setBusy True (setOk Nothing (setErr Nothing p))) = category_number p"
    by (rule category_number_cong) simp
  with assms show ?thesis
    by (auto simp add: save_def Let_def title_blank_def)
qed

lemma save_sent:
  assumes "\<not> title_blank p" "truthy (category_number p)"
  shows "save answer p =
     (case answer of
        Pending \<Rightarrow> (Pending, (setBusy True (setOk Nothing (setErr Nothing p)))
           \<lparr>requests := requests p @
              [PATCH_recipe (recipeId p) (trim (title_value p)) (category_number p)]\<rparr>)
      | Rejected e \<Rightarrow> (Rejected e, (setBusy True (setOk Nothing (setErr Nothing p)))
           \<lparr>requests := requests p @
              [PATCH_recipe (recipeId p) (trim (title_value p)) (category_number p)]\<rparr>)
      | Fulfilled j \<Rightarrow>
         (let p3 = clearDraft ((setBusy True (setOk Nothing (setErr Nothing p)))
           \<lparr>requests := requests p @
              [PATCH_recipe (recipeId p) (trim (title_value p)) (category_number p)]\<rparr>);
              p4 = (if tg_present p3 then p3\<lparr>sent_data := sent_data p3 @ [recipeId p3]\<rparr> else p3)
          in (Fulfilled (), (setOk Saved p4)\<lparr>close_scheduled := True\<rparr>)))"
proof -
  have "category_number (setBusy True (setOk Nothing (setErr Nothing p))) = category_number p"
    by (rule category_number_cong) simp
  with assms show ?thesis
    by (simp add: save_def Let_def title_blank_def api_def split: outcome.splits)
qed

lemma save_success_page:
  assumes "\<not> title_blank p" "truthy (category_number p)"
  shows "\<exists>q. recipeId q = recipeId p \<and> sessionStorage q = sessionStorage p
       \<and> localStorage q = localStorage p
       \<and> recipeId (snd (save (Fulfilled j) p)) = recipeId (clearDraft q)
       \<and> sessionStorage (snd (save (Fulfilled j) p)) = sessionStorage (clearDraft q)
       \<and> localStorage (snd (save (Fulfilled j) p)) = localStorage (clearDraft q)"
  by (intro exI [of _ "(setBusy True (setOk Nothing (setErr Nothing p)))\<lparr>requests := requests p @
        [PATCH_recipe (recipeId p) (trim (title_value p)) (category_number p)]\<rparr>"])
    (simp add: save_sent [OF assms] Let_def)

subsection \<open>The handlers\<close>

lemmas example2_defs = draft_kept_def page_kept_def draft_foreign_def page_foreign_def
  draft_remote_def answers_none_def answers_remote_def

lemma trim_examples2:
  "trim (js ''Kept Title'') = (js ''Kept Title'')" "trim (js ''Remote Title'') = (js ''Remote Title'')"
  "trim (js ''Server Title'') = (js ''Server Title'')" "trim (js ''X'') = (js ''X'')"
  by (simp_all add: trim_def is_space_def js_def)

lemma restoreDraftIntoForm_frame [simp]:
  "recipeId (restoreDraftIntoForm p) = recipeId p"
  "sessionStorage (restoreDraftIntoForm p) = sessionStorage p"
  "localStorage (restoreDraftIntoForm p) = localStorage p"
  "requests (restoreDraftIntoForm p) = requests p"
  "category_options (restoreDraftIntoForm p) = category_options p"
  by (simp_all add: restoreDraftIntoForm_overlay split: option.splits)

lemma restoreDraftIntoForm_idem:
  "restoreDraftIntoForm (restoreDraftIntoForm p) = restoreDraftIntoForm p"
  by (simp add: restoreDraftIntoForm_overlay overlay_idem split: option.splits)

lemma pageshow_no_escalation:
  "\<not> title_blank (restoreDraftIntoForm p) \<Longrightarrow> pageshow a p = restoreDraftIntoForm p"
  by (simp add: pageshow_def Let_def)

lemma pageshow_after_title:
  assumes "\<not> title_blank q"
  shows "pageshow a q = restoreDraftIntoForm q"
proof -
  have "\<not> title_blank (restoreDraftIntoForm q)"
    using assms
    by (simp add: restoreDraftIntoForm_overlay overlay_def title_blank_def split: option.splits)
  then show ?thesis
    by (rule pageshow_no_escalation)
qed

lemma visibilitychange_no_escalation:
  "\<not> title_blank (restoreDraftIntoForm p) \<Longrightarrow> visibilitychange False a p = restoreDraftIntoForm p"
  by (simp add: visibilitychange_def Let_def)

lemma visibilitychange_pageshow: "visibilitychange False a p = pageshow a p"
  by (simp add: visibilitychange_def pageshow_def)

lemma overlay_title:
  "d_title d = Some t \<Longrightarrow> trim t \<noteq> [] \<Longrightarrow> title_value (overlay d p) = t"
  by (simp add: overlay_def)

lemma pageshow_remote:
  assumes "title_blank (restoreDraftIntoForm p)" "a_draft a = Fulfilled (Object d)"
    "d_title d = Some t" "trim t \<noteq> []"
  shows "pageshow a p =
     overlay d ((restoreDraftIntoForm p)\<lparr>requests := requests p @ [GET_draft (recipeId p)]\<rparr>)"
  using assms
  by (simp add: pageshow_def Let_def restoreDraftFromRedisIntoForm_overlay title_blank_def
      overlay_title)

lemma storageSet_frame [simp]:
  "recipeId (storageSet k v p) = recipeId p"
  "requests (storageSet k v p) = requests p"
  "title_value (storageSet k v p) = title_value p"
  "category_value (storageSet k v p) = category_value p"
  "category_options (storageSet k v p) = category_options p"
  "href (storageSet k v p) = href p"
  by (simp_all add: storageSet_def setItem_def Let_def)

lemma writeDraft_frame [simp]:
  "recipeId (writeDraft now p) = recipeId p"
  "requests (writeDraft now p) = requests p"
  "title_value (writeDraft now p) = title_value p"
  "category_value (writeDraft now p) = category_value p"
  "category_options (writeDraft now p) = category_options p"
  "href (writeDraft now p) = href p"
  by (simp_all add: writeDraft_def Let_def)

lemma putDraftToRedis_eq:
  "putDraftToRedis answer p =
     ((case answer of Pending \<Rightarrow> Pending | _ \<Rightarrow> Fulfilled ()),
      p\<lparr>requests := requests p @
          [PUT_draft (recipeId p) (trim (title_value p))
             (if truthy (category_number p) then Some (category_number p) else None)]\<rparr>)"
  by (simp add: putDraftToRedis_def api_def split: outcome.splits)

subsection \<open>Loading\<close>

lemma load_fulfilled:
  assumes "truthy (recipeId p)" "tg_present p" "initData p"
  shows "load (Fulfilled (Array cs, rc)) remote now p =
     (case restoreDraftFromRedisIntoForm remote (restoreDraftIntoForm (server_values cs rc p)) of
        (Pending, p8) \<Rightarrow> (Pending, p8)
      | (Rejected e, p8) \<Rightarrow> (Rejected e, p8)
      | (Fulfilled u, p8) \<Rightarrow>
          (Fulfilled (), if readDraft p8 = None then writeDraft now p8 else p8))"
  using assms by (simp add: load_def server_values_def Let_def)

lemma set_category_value_frame [simp]:
  "recipeId (set_category_value c p) = recipeId p"
  "sessionStorage (set_category_value c p) = sessionStorage p"
  "localStorage (set_category_value c p) = localStorage p"
  "requests (set_category_value c p) = requests p"
  "title_value (set_category_value c p) = title_value p"
  "category_options (set_category_value c p) = category_options p"
  by (cases c; simp)+

lemma server_values_frame [simp]:
  "recipeId (server_values cs rc p) = recipeId p"
  "sessionStorage (server_values cs rc p) = sessionStorage p"
  "localStorage (server_values cs rc p) = localStorage p"
  "requests (server_values cs rc p) = requests p @ [GET_categories, GET_recipe (recipeId p)]"
  "title_value (server_values cs rc p) = (case r_title rc of None \<Rightarrow> [] | Some s \<Rightarrow> s)"
  "category_options (server_values cs rc p) = map fst cs"
  by (simp_all add: server_values_def Let_def)

lemma server_values_category:
  "category_value (server_values cs rc p) =
     (case r_category_id rc of
        Fin n \<Rightarrow> if n \<in> fst ` set cs then Some n else None
      | NaN \<Rightarrow> None)"
  by (cases "r_category_id rc") (simp_all add: server_values_def Let_def)

lemma readDraft_server_values [simp]: "readDraft (server_values cs rc p) = readDraft p"
  by (rule readDraft_cong) simp_all

lemma readDraft_with_requests [simp]: "readDraft (p\<lparr>requests := r\<rparr>) = readDraft p"
  by (rule readDraft_cong) simp_all

lemma overlay_title_value:
  "title_value (overlay d p) = (case defined_title d of Some t \<Rightarrow> t | None \<Rightarrow> title_value p)"
  by (simp add: overlay_def defined_title_def split: option.splits)

lemma overlay_empty_object [simp]: "overlay empty_object p = p"
  by (simp add: overlay_def empty_object_def)

text \<open>The page before the forced write.\<close>

lemma load_settled:
  assumes "truthy (recipeId p)" "tg_present p" "initData p" "remote \<noteq> Pending"
  shows "\<exists>p8. load (Fulfilled (Array cs, rc)) remote now p =
           (Fulfilled (), if readDraft p = None then writeDraft now p8 else p8)
     \<and> p8 = overlay (remote_draft remote)
              ((overlay (local_draft p) (server_values cs rc p))
                 \<lparr>requests := requests p @
                    [GET_categories, GET_recipe (recipeId p), GET_draft (recipeId p)]\<rparr>)"
proof -
  have l: "restoreDraftIntoForm (server_values cs rc p)
      = overlay (local_draft p) (server_values cs rc p)"
    by (simp add: restoreDraftIntoForm_overlay local_draft_def split: option.splits)
  show ?thesis
    using assms(4)
    by (cases remote)
      (simp_all add: load_fulfilled [OF assms(1-3)] l restoreDraftFromRedisIntoForm_overlay
        remote_draft_def)
qed

lemma trim_examples3:
  "trim (js ''Borscht'' @ [0xA0]) = (js ''Borscht'')" "trim (js ''Borscht'') = (js ''Borscht'')"
  by (simp_all add: trim_def is_space_def js_def)

lemma category_number_not_truthy: "\<not> truthy (category_number p) \<Longrightarrow> category_number p = Fin 0"
  by (simp add: category_number_def split: option.splits)

lemma writeDraft_first:
  assumes "truthy (recipeId p)" "readDraft p = None"
    "writable (sessionStorage p)" "writable (localStorage p)"
  shows "writeDraft now p =
     p\<lparr>sessionStorage := (sessionStorage p)\<lparr>items := (items (sessionStorage p))
          (draftKey p \<mapsto> Text (Object \<lparr>d_title = Some (trim (title_value p)),
              d_category = category_number p, d_ts = Some now\<rparr>))\<rparr>,
       localStorage := (localStorage p)\<lparr>items := (items (localStorage p))
          (draftKey p \<mapsto> Text (Object \<lparr>d_title = Some (trim (title_value p)),
              d_category = category_number p, d_ts = Some now\<rparr>))\<rparr>\<rparr>"
proof -
  from writeDraft_writes [OF assms(1), of now] obtain t c where
    w: "writeDraft now p =
          storageSet (draftKey p)
            (Text (Object \<lparr>d_title = Some t, d_category = c, d_ts = Some now\<rparr>)) p"
    and t: "t = (if \<not> title_blank p then trim (title_value p) else [])"
    and c: "c = (if truthy (category_number p) then category_number p else Fin 0)"
    by (auto simp add: assms(2))
  from t have t': "t = trim (title_value p)"
    by (simp add: title_blank_def)
  from c have c': "c = category_number p"
    by (simp add: category_number_not_truthy)
  show ?thesis
    unfolding w t' c' using assms(3,4) by (rule storageSet_writable)
qed

lemma load_example:
  "load (Fulfilled (Array cats_example, rc)) (Rejected (Api_error ''HTTP 404'')) 5 page0
   = (Fulfilled (),
      writeDraft 5 ((server_values cats_example rc page0)
         \<lparr>requests := [GET_categories, GET_recipe (Fin 7), GET_draft (Fin 7)]\<rparr>))"
proof -
  have h: "truthy (recipeId page0)" "tg_present page0" "initData page0"
    "Rejected (Api_error ''HTTP 404'') \<noteq> (Pending :: json outcome)"
    and r: "readDraft page0 = None" "requests page0 = []" "recipeId page0 = Fin 7"
    by (simp_all add: example_defs storage_defs)
  from load_settled [OF h, of cats_example rc 5] r show ?thesis
    by (simp add: local_draft_def remote_draft_def)
qed

subsection \<open>The handlers in two steps\<close>

lemma draft_settles_overlay:
  "draft_settles answer p = overlay (remote_draft answer) p"
proof (cases answer)
  case (Fulfilled j)
  show ?thesis
  proof (cases j)
    case (Object d)
    with Fulfilled show ?thesis
      by (cases "d_category d")
        (simp_all add: draft_settles_def remote_draft_def overlay_def Let_def
          split: option.splits)
  qed (simp_all add: Fulfilled draft_settles_def remote_draft_def overlay_def empty_object_def)
qed (simp_all add: draft_settles_def remote_draft_def)

lemma restoreDraftFromRedisIntoForm_in_two_steps:
  "restoreDraftFromRedisIntoForm answer p =
     (if answer = Pending then Pending else Fulfilled (),
      draft_settles answer (snd (restoreDraftFromRedisIntoForm Pending p)))"
  by (cases answer)
    (simp_all add: restoreDraftFromRedisIntoForm_overlay draft_settles_overlay remote_draft_def)

lemma pageshow_in_two_steps:
  "pageshow a p =
     (if title_blank (restoreDraftIntoForm p) then handler_continues a (handler_sync p)
      else handler_sync p)"
proof (cases "a_draft a")
  case Pending
  then show ?thesis
    by (simp add: pageshow_def handler_sync_def handler_continues_def Let_def
        restoreDraftFromRedisIntoForm_overlay)
next
  case (Rejected e)
  then show ?thesis
    by (simp add: pageshow_def handler_sync_def handler_continues_def Let_def
        restoreDraftFromRedisIntoForm_in_two_steps [of "Rejected e"])
next
  case (Fulfilled j)
  then show ?thesis
    by (simp add: pageshow_def handler_sync_def handler_continues_def Let_def
        restoreDraftFromRedisIntoForm_in_two_steps [of "Fulfilled j"])
qed

lemma handler_sync_eq:
  "handler_sync p =
     (if title_blank (restoreDraftIntoForm p)
      then (restoreDraftIntoForm p)\<lparr>requests := requests p @ [GET_draft (recipeId p)]\<rparr>
      else restoreDraftIntoForm p)"
  by (simp add: handler_sync_def Let_def restoreDraftFromRedisIntoForm_overlay)

lemma restoreDraftIntoForm_requests:
  "restoreDraftIntoForm (p\<lparr>requests := r\<rparr>) = (restoreDraftIntoForm p)\<lparr>requests := r\<rparr>"
  by (simp add: restoreDraftIntoForm_overlay readDraft_with_requests overlay_def
      split: option.splits jsnum.splits)

lemma title_blank_requests [simp]: "title_blank (p\<lparr>requests := r\<rparr>) = title_blank p"
  by (simp add: title_blank_def)

lemma handler_sync_twice:
  "handler_sync (handler_sync p) =
     (if title_blank (restoreDraftIntoForm p)
      then (restoreDraftIntoForm p)
             \<lparr>requests := requests p @ [GET_draft (recipeId p), GET_draft (recipeId p)]\<rparr>
      else restoreDraftIntoForm p)"
  by (simp add: handler_sync_eq restoreDraftIntoForm_requests restoreDraftIntoForm_idem)

lemma handler_continues_loads:
  assumes "truthy (recipeId p)" "tg_present p" "initData p"
    and "a_draft a \<noteq> Pending" and "title_blank (draft_settles (a_draft a) p)"
    and "a_load_both a = Pending"
  shows "requests (handler_continues a p) =
           requests p @ [GET_categories, GET_recipe (recipeId p)]"
  using assms
  by (cases "a_draft a")
    (simp_all add: handler_continues_def Let_def load_def draft_settles_overlay setBusy_def)


lemmas example3_defs = page_nbsp_def page_kept_nbsp_def draft_nbsp_def page_nbsp_draft_def
  draft_remote_1_def

lemma handler_continues_load_pending:
  assumes "truthy (recipeId q)" "tg_present q" "initData q" "title_blank q"
  shows "handler_continues answers_none q =
     (setBusy True q)\<lparr>requests := requests q @ [GET_categories, GET_recipe (recipeId q)]\<rparr>"
  using assms
  by (simp add: handler_continues_def answers_none_def draft_settles_def load_def Let_def)

lemma overlay_category_value:
  "category_value (overlay d p) =
     (case defined_category (category_options p) d of
        Some n \<Rightarrow> Some n
      | None \<Rightarrow> category_value p)"
  by (simp add: overlay_def defined_category_def split: jsnum.splits)

section \<open>The claims\<close>

subsection \<open>C1: writing a draft merges with the stored draft\<close>

text \<open>
  C1, as stated, says that a field of the form that is not blank is stored as it is in
  the form. \<^verbatim>\<open>writeDraft\<close> stores the title trimmed: over the stored draft
  \<^verbatim>\<open>{title: "A", category_id: 1}\<close>, the form title \<^verbatim>\<open>" B "\<close> (not blank) is stored as
  \<^verbatim>\<open>"B"\<close>, which is not the value of the form.
\<close>

theorem writeDraft_trims_title_counterexample:
  "readDraft page_B_spaces = Some draft_A1
   \<and> title_value page_B_spaces = (js '' B '')
   \<and> \<not> title_blank page_B_spaces
   \<and> readDraft (writeDraft 5 page_B_spaces)
       = Some \<lparr>d_title = Some (js ''B''), d_category = Fin 1, d_ts = Some 5\<rparr>
   \<and> Some (js ''B'') \<noteq> Some (title_value page_B_spaces)"
  by (simp add: example_defs storage_defs writeDraft_def JSON_stringify_def category_number_def
      title_blank_def trim_examples Let_def)

text \<open>
  C1, amended. For a page with a recipe id and storage areas that accept the write, and
  for every draft \<open>prev\<close> read from the storage: after \<^verbatim>\<open>writeDraft\<close> both storage areas hold
  one draft \<open>d\<close>, which is the draft read next, and
  \<^item> a title that is not blank in the form is stored trimmed;
  \<^item> when the title of the form is blank, \<open>d\<close> keeps the title of \<open>prev\<close> if that is a
    string that is not blank, and has the empty title otherwise;
  \<^item> a category of the form that is not 0 is stored;
  \<^item> when the form has category 0 or none, \<open>d\<close> keeps the category of \<open>prev\<close> if that is not
    0 (or \<^verbatim>\<open>NaN\<close>), and has category 0 otherwise.
\<close>

theorem writeDraft_merges_with_stored_draft:
  assumes "truthy (recipeId p)"
    and "writable (sessionStorage p)" and "writable (localStorage p)"
    and "readDraft p = Some prev"
  shows "\<exists>d. items (sessionStorage (writeDraft now p)) (draftKey p) = Some (Text (Object d))
     \<and> items (localStorage (writeDraft now p)) (draftKey p) = Some (Text (Object d))
     \<and> readDraft (writeDraft now p) = Some d
     \<and> (\<not> title_blank p \<longrightarrow> d_title d = Some (trim (title_value p)))
     \<and> (title_blank p \<longrightarrow> (\<forall>s. d_title prev = Some s \<and> trim s \<noteq> [] \<longrightarrow> d_title d = Some s))
     \<and> (title_blank p \<and> (d_title prev = None \<or> (\<exists>s. d_title prev = Some s \<and> trim s = []))
          \<longrightarrow> d_title d = Some [])
     \<and> (truthy (category_number p) \<longrightarrow> d_category d = category_number p)
     \<and> (\<not> truthy (category_number p) \<and> truthy (d_category prev)
          \<longrightarrow> d_category d = d_category prev)
     \<and> (\<not> truthy (category_number p) \<and> \<not> truthy (d_category prev) \<longrightarrow> d_category d = Fin 0)"
proof -
  from writeDraft_writes [OF assms(1), of now] obtain t c where
    w: "writeDraft now p =
          storageSet (draftKey p)
            (Text (Object \<lparr>d_title = Some t, d_category = c, d_ts = Some now\<rparr>)) p"
    and t: "t = (if \<not> title_blank p then trim (title_value p)
           else (case d_title prev of Some s \<Rightarrow> if trim s \<noteq> [] then s else [] | None \<Rightarrow> []))"
    and c: "c = (if truthy (category_number p) then category_number p
           else if truthy (d_category prev) then d_category prev else Fin 0)"
    by (auto simp add: assms(4))
  let ?d = "\<lparr>d_title = Some t, d_category = c, d_ts = Some now\<rparr>"
  let ?q = "writeDraft now p"
  have s: "items (sessionStorage ?q) (draftKey p) = Some (Text (Object ?d))"
    and l: "items (localStorage ?q) (draftKey p) = Some (Text (Object ?d))"
    and n: "\<not> denied (sessionStorage ?q)" and r: "recipeId ?q = recipeId p"
    using assms(2,3) by (simp_all add: w storageSet_writable, simp_all add: writable_def)
  have "readDraft ?q = Some ?d"
    using n s draftKey_cong [OF r] by (simp add: readDraft_tab_item)
  with s l t c show ?thesis
    by (intro exI [of _ ?d]) (auto split: option.splits)
qed

text \<open>
  C1, example. The example of the claim: \<^verbatim>\<open>"B"\<close> written over \<^verbatim>\<open>{title: "A", category_id: 1}\<close> with the
  category still 1 gives title \<^verbatim>\<open>"B"\<close> and category 1; a form with a no-break space and a
  space as its title and no category, written over the same draft, leaves title \<^verbatim>\<open>"A"\<close>
  and category 1.
\<close>

theorem writeDraft_merges_with_stored_draft_witness:
  "truthy (recipeId page_B) \<and> writable (sessionStorage page_B) \<and> writable (localStorage page_B)
   \<and> readDraft page_B = Some draft_A1
   \<and> (\<exists>d. readDraft (writeDraft 5 page_B) = Some d
          \<and> d_title d = Some (js ''B'') \<and> d_category d = Fin 1)
   \<and> truthy (recipeId page_blank) \<and> writable (sessionStorage page_blank)
   \<and> writable (localStorage page_blank)
   \<and> readDraft page_blank = Some draft_A1
   \<and> title_blank page_blank \<and> \<not> truthy (category_number page_blank)
   \<and> (\<exists>d. readDraft (writeDraft 5 page_blank) = Some d
          \<and> d_title d = Some (js ''A'') \<and> d_category d = Fin 1)"
proof -
  have B: "truthy (recipeId page_B)" "writable (sessionStorage page_B)"
    "writable (localStorage page_B)" "readDraft page_B = Some draft_A1"
    by (simp_all add: example_defs storage_defs)
  have fB: "\<not> title_blank page_B" "trim (title_value page_B) = (js ''B'')"
    "category_number page_B = Fin 1"
    by (simp_all add: example_defs title_blank_def category_number_def trim_examples)
  have E: "truthy (recipeId page_blank)" "writable (sessionStorage page_blank)"
    "writable (localStorage page_blank)" "readDraft page_blank = Some draft_A1"
    by (simp_all add: example_defs storage_defs)
  have fE: "title_blank page_blank" "\<not> truthy (category_number page_blank)"
    "d_title draft_A1 = Some (js ''A'')" "trim (js ''A'') \<noteq> []" "d_category draft_A1 = Fin 1"
    by (simp_all add: example_defs title_blank_def category_number_def trim_examples)
  from writeDraft_merges_with_stored_draft [OF B, of 5] fB
  have 1: "\<exists>d. readDraft (writeDraft 5 page_B) = Some d
          \<and> d_title d = Some (js ''B'') \<and> d_category d = Fin 1"
    by auto
  from writeDraft_merges_with_stored_draft [OF E, of 5] fE
  have 2: "\<exists>d. readDraft (writeDraft 5 page_blank) = Some d
          \<and> d_title d = Some (js ''A'') \<and> d_category d = Fin 1"
    by auto
  from B E fE(1,2) 1 2 show ?thesis
    by blast
qed

subsection \<open>C2: reading when the tab-scoped storage holds a malformed value\<close>

text \<open>
  C2, as stated, says that the read falls through to the durable storage when the
  tab-scoped storage holds a value that does not parse. \<^verbatim>\<open>storageGet\<close> returns the value of
  \<^verbatim>\<open>sessionStorage\<close> whenever it is not \<^verbatim>\<open>null\<close>, and \<^verbatim>\<open>readDraft\<close> parses only that: with a
  string that is not JSON in \<^verbatim>\<open>sessionStorage\<close> and the draft \<^verbatim>\<open>{title: "A", category_id: 1}\<close>
  in \<^verbatim>\<open>localStorage\<close>, \<^verbatim>\<open>readDraft\<close> returns \<^verbatim>\<open>null\<close>, not that draft.
\<close>

theorem readDraft_no_fall_through_counterexample:
  "getItem (sessionStorage page_corrupt_tab) (draftKey page_corrupt_tab) = Inr (Some Unparseable)
   \<and> getItem (localStorage page_corrupt_tab) (draftKey page_corrupt_tab)
       = Inr (Some (Text (Object draft_A1)))
   \<and> readDraft page_corrupt_tab = None
   \<and> readDraft page_corrupt_tab \<noteq> Some draft_A1"
  by (simp add: example_defs storage_defs)

text \<open>
  C2, amended. When \<^verbatim>\<open>sessionStorage\<close> holds a value under the draft key, that value alone
  decides the read: the draft if the value is the text of an object, and no draft if it
  is empty, does not parse or is not an object, whatever \<^verbatim>\<open>localStorage\<close> holds. The read
  goes on to \<^verbatim>\<open>localStorage\<close> only when \<^verbatim>\<open>sessionStorage\<close> has no value under the key or its
  access throws. The read never throws: where the body of \<^verbatim>\<open>readDraft\<close> throws, the result
  is no draft.
\<close>

theorem readDraft_tab_value_decides:
  "(getItem (sessionStorage p) (draftKey p) = Inr (Some v) \<longrightarrow>
      readDraft p = (case v of Text (Object d) \<Rightarrow> Some d | _ \<Rightarrow> None))
   \<and> (getItem (sessionStorage p) (draftKey p) = Inr None
        \<or> getItem (sessionStorage p) (draftKey p) = Inl e \<longrightarrow>
      readDraft p =
        (case getItem (localStorage p) (draftKey p) of
           Inr (Some (Text (Object d))) \<Rightarrow> Some d
         | _ \<Rightarrow> None))
   \<and> (readDraft_try p = Inl e' \<longrightarrow> readDraft p = None)"
  by (auto simp add: readDraft_def readDraft_try_def storageGet_def
      split: stored.splits json.splits sum.splits option.splits)

text \<open>
  C2, example. A string that is not JSON in \<^verbatim>\<open>sessionStorage\<close> over the draft in
  \<^verbatim>\<open>localStorage\<close>: \<^verbatim>\<open>JSON.parse\<close> throws and the read finds no draft. An empty
  \<^verbatim>\<open>sessionStorage\<close> over the same \<^verbatim>\<open>localStorage\<close>: the read finds the draft.
\<close>

theorem readDraft_tab_value_decides_witness:
  "getItem (sessionStorage page_corrupt_tab) (draftKey page_corrupt_tab) = Inr (Some Unparseable)
   \<and> readDraft_try page_corrupt_tab = Inl SyntaxError
   \<and> readDraft page_corrupt_tab = None
   \<and> getItem (sessionStorage page_durable_only) (draftKey page_durable_only) = Inr None
   \<and> readDraft page_durable_only = Some draft_A1"
proof -
  have 1: "getItem (sessionStorage page_corrupt_tab) (draftKey page_corrupt_tab)
      = Inr (Some Unparseable)"
    and 2: "readDraft_try page_corrupt_tab = Inl SyntaxError"
    and 3: "getItem (sessionStorage page_durable_only) (draftKey page_durable_only) = Inr None"
    and 4: "getItem (localStorage page_durable_only) (draftKey page_durable_only)
      = Inr (Some (Text (Object draft_A1)))"
    by (simp_all add: example_defs storage_defs)
  from readDraft_tab_value_decides [of page_corrupt_tab Unparseable SecurityError SyntaxError] 1
  have 5: "readDraft page_corrupt_tab = None"
    by simp
  from readDraft_tab_value_decides [of page_durable_only Unparseable SecurityError SyntaxError] 3 4
  have 6: "readDraft page_durable_only = Some draft_A1"
    by simp
  from 1 2 3 5 6 show ?thesis
    by simp
qed

subsection \<open>C3: saving clears the draft only when it succeeds\<close>

text \<open>
  C3. \<^verbatim>\<open>save\<close> is fulfilled exactly when the form is valid (a title that is not blank and a
  category that is not 0) and the \<^verbatim>\<open>PATCH\<close> is fulfilled. When it is fulfilled, the next
  \<^verbatim>\<open>readDraft\<close> finds no draft, and the draft key is gone from each storage area that can
  be accessed. When it is not (validation fails, or the \<^verbatim>\<open>PATCH\<close> is rejected or never
  answers), both storage areas are as they were and \<^verbatim>\<open>readDraft\<close> finds what it found
  before: \<^verbatim>\<open>clearDraft\<close> has not run.
\<close>

theorem save_clears_draft_only_on_success:
  "(fst (save answer p) = Fulfilled ()
       \<longleftrightarrow> (\<exists>j. answer = Fulfilled j) \<and> \<not> title_blank p \<and> truthy (category_number p))
   \<and> (fst (save answer p) = Fulfilled () \<longrightarrow>
         readDraft (snd (save answer p)) = None
       \<and> (\<not> denied (sessionStorage p) \<longrightarrow>
            items (sessionStorage (snd (save answer p))) (draftKey p) = None)
       \<and> (\<not> denied (localStorage p) \<longrightarrow>
            items (localStorage (snd (save answer p))) (draftKey p) = None))
   \<and> (fst (save answer p) \<noteq> Fulfilled () \<longrightarrow>
         sessionStorage (snd (save answer p)) = sessionStorage p
       \<and> localStorage (snd (save answer p)) = localStorage p
       \<and> readDraft (snd (save answer p)) = readDraft p)"
proof -
  have iff: "fst (save answer p) = Fulfilled ()
       \<longleftrightarrow> (\<exists>j. answer = Fulfilled j) \<and> \<not> title_blank p \<and> truthy (category_number p)"
    by (cases "title_blank p \<or> \<not> truthy (category_number p)"; cases answer)
      (auto simp add: save_rejected_locally save_sent Let_def)
  have fail: "sessionStorage (snd (save answer p)) = sessionStorage p
       \<and> localStorage (snd (save answer p)) = localStorage p
       \<and> recipeId (snd (save answer p)) = recipeId p"
    if "fst (save answer p) \<noteq> Fulfilled ()"
    using that
    by (cases "title_blank p \<or> \<not> truthy (category_number p)"; cases answer)
      (auto simp add: save_rejected_locally save_sent Let_def)
  have ok: "readDraft (snd (save answer p)) = None
       \<and> (\<not> denied (sessionStorage p) \<longrightarrow>
            items (sessionStorage (snd (save answer p))) (draftKey p) = None)
       \<and> (\<not> denied (localStorage p) \<longrightarrow>
            items (localStorage (snd (save answer p))) (draftKey p) = None)"
    if "fst (save answer p) = Fulfilled ()"
  proof -
    from that iff obtain j where a: "answer = Fulfilled j"
      and v: "\<not> title_blank p" "truthy (category_number p)"
      by blast
    from save_success_page [OF v, of j] obtain q where
      q: "recipeId q = recipeId p" "sessionStorage q = sessionStorage p"
         "localStorage q = localStorage p"
      and r: "recipeId (snd (save answer p)) = recipeId (clearDraft q)"
        "sessionStorage (snd (save answer p)) = sessionStorage (clearDraft q)"
        "localStorage (snd (save answer p)) = localStorage (clearDraft q)"
      unfolding a by blast
    let ?r = "snd (save answer p)"
    have k: "draftKey q = draftKey p"
      using q(1) by (rule draftKey_cong)
    have "readDraft ?r = readDraft (clearDraft q)"
      using r by (rule readDraft_cong)
    moreover have "readDraft (clearDraft q) = None"
      unfolding clearDraft_def by (rule readDraft_storageRemove)
    ultimately show ?thesis
      using q k by (simp add: r clearDraft_def storageRemove_items)
  qed
  show ?thesis
    using iff ok fail readDraft_cong [of "snd (save answer p)" p] by blast
qed

text \<open>
  C3, example. Over the stored draft \<^verbatim>\<open>{title: "A", category_id: 1}\<close> and the form \<^verbatim>\<open>"B"\<close>, 1: a
  fulfilled \<^verbatim>\<open>PATCH\<close> leaves no draft; a rejected one, or an invalid form (no category, or
  a no-break space as the title), leaves the draft.
\<close>

theorem save_clears_draft_only_on_success_witness:
  "readDraft page_B = Some draft_A1
   \<and> fst (save (Fulfilled Truthy_primitive) page_B) = Fulfilled ()
   \<and> readDraft (snd (save (Fulfilled Truthy_primitive) page_B)) = None
   \<and> fst (save (Rejected (Api_error ''HTTP 500'')) page_B) \<noteq> Fulfilled ()
   \<and> readDraft (snd (save (Rejected (Api_error ''HTTP 500'')) page_B)) = Some draft_A1
   \<and> fst (save (Fulfilled Truthy_primitive) page_no_category) \<noteq> Fulfilled ()
   \<and> readDraft (snd (save (Fulfilled Truthy_primitive) page_no_category)) = Some draft_A1
   \<and> title_blank page_nbsp \<and> truthy (category_number page_nbsp)
   \<and> fst (save (Fulfilled Truthy_primitive) page_nbsp) \<noteq> Fulfilled ()
   \<and> readDraft (snd (save (Fulfilled Truthy_primitive) page_nbsp)) = Some draft_A1"
proof -
  have r: "readDraft page_B = Some draft_A1" "readDraft page_no_category = Some draft_A1"
    "readDraft page_nbsp = Some draft_A1"
    by (simp_all add: example_defs example3_defs storage_defs)
  have u: "title_blank page_nbsp" "truthy (category_number page_nbsp)"
    by (simp_all add: example_defs example3_defs title_blank_def category_number_def
        trim_examples)
  have v: "\<not> title_blank page_B" "truthy (category_number page_B)"
    "\<not> truthy (category_number page_no_category)"
    by (simp_all add: example_defs title_blank_def category_number_def trim_examples)
  from save_clears_draft_only_on_success [of "Fulfilled Truthy_primitive" page_B] v
  have 1: "fst (save (Fulfilled Truthy_primitive) page_B) = Fulfilled ()"
    "readDraft (snd (save (Fulfilled Truthy_primitive) page_B)) = None"
    by simp_all
  from save_clears_draft_only_on_success [of "Rejected (Api_error ''HTTP 500'')" page_B] r
  have 2: "fst (save (Rejected (Api_error ''HTTP 500'')) page_B) \<noteq> Fulfilled ()"
    "readDraft (snd (save (Rejected (Api_error ''HTTP 500'')) page_B)) = Some draft_A1"
    by simp_all
  from save_clears_draft_only_on_success [of "Fulfilled Truthy_primitive" page_no_category] r v
  have 3: "fst (save (Fulfilled Truthy_primitive) page_no_category) \<noteq> Fulfilled ()"
    "readDraft (snd (save (Fulfilled Truthy_primitive) page_no_category)) = Some draft_A1"
    by simp_all
  from save_clears_draft_only_on_success [of "Fulfilled Truthy_primitive" page_nbsp] r u
  have 4: "fst (save (Fulfilled Truthy_primitive) page_nbsp) \<noteq> Fulfilled ()"
    "readDraft (snd (save (Fulfilled Truthy_primitive) page_nbsp)) = Some draft_A1"
    by simp_all
  from r 1 2 3 u 4 show ?thesis
    by simp
qed

subsection \<open>C4: the hand-over to a sibling page and the push of the draft\<close>

text \<open>
  C4, as stated, says that the hand-over navigates whatever becomes of the remote put,
  also when it never completes. Both handlers run \<^verbatim>\<open>await putDraftToRedis()\<close> before they
  set \<^verbatim>\<open>location.href\<close>: while the \<^verbatim>\<open>PUT\<close> is pending, the request has been sent and the
  page has not navigated.
\<close>

theorem handoff_waits_for_put_counterexample:
  "href page_B = Edit_recipe
   \<and> requests (btnDesc_click 5 Pending page_B) = [PUT_draft (Fin 7) (js ''B'') (Some (Fin 1))]
   \<and> href (btnDesc_click 5 Pending page_B) = Edit_recipe
   \<and> requests (btnIng_click 5 Pending page_B) = [PUT_draft (Fin 7) (js ''B'') (Some (Fin 1))]
   \<and> href (btnIng_click 5 Pending page_B) = Edit_recipe"
  by (simp add: btnDesc_click_def btnIng_click_def putDraftToRedis_eq Let_def
      example_defs category_number_def trim_examples)

text \<open>
  C4, amended. In both hand-over handlers the local draft is written first (the storage
  areas are those that \<^verbatim>\<open>writeDraft\<close> leaves), then the \<^verbatim>\<open>PUT\<close> of the draft is sent, and the
  page navigates once that request has settled, fulfilled or rejected alike; while the
  request is pending the page does not navigate.
\<close>

theorem handoff_navigates_after_put_settles:
  "sessionStorage (btnDesc_click now answer p) = sessionStorage (writeDraft now p)
   \<and> localStorage (btnDesc_click now answer p) = localStorage (writeDraft now p)
   \<and> requests (btnDesc_click now answer p) =
       requests p @ [PUT_draft (recipeId p) (trim (title_value p))
                       (if truthy (category_number p) then Some (category_number p) else None)]
   \<and> (answer = Pending \<longrightarrow> href (btnDesc_click now answer p) = href p)
   \<and> (answer \<noteq> Pending \<longrightarrow> href (btnDesc_click now answer p) = Edit_description (recipeId p))
   \<and> sessionStorage (btnIng_click now answer p) = sessionStorage (writeDraft now p)
   \<and> localStorage (btnIng_click now answer p) = localStorage (writeDraft now p)
   \<and> requests (btnIng_click now answer p) =
       requests p @ [PUT_draft (recipeId p) (trim (title_value p))
                       (if truthy (category_number p) then Some (category_number p) else None)]
   \<and> (answer = Pending \<longrightarrow> href (btnIng_click now answer p) = href p)
   \<and> (answer \<noteq> Pending \<longrightarrow> href (btnIng_click now answer p) = Edit_ingredients (recipeId p))"
proof -
  have c: "category_number (writeDraft now p) = category_number p"
    by (rule category_number_cong) simp
  show ?thesis
    by (cases answer)
      (simp_all add: btnDesc_click_def btnIng_click_def putDraftToRedis_eq Let_def c)
qed

text \<open>
  C4, example. With the form \<^verbatim>\<open>"B"\<close>, 1: a pending \<^verbatim>\<open>PUT\<close> leaves the page where it is, with the draft
  written; a rejected or fulfilled one is followed by the navigation.
\<close>

theorem handoff_navigates_after_put_settles_witness:
  "href (btnDesc_click 5 Pending page_B) = Edit_recipe
   \<and> href (btnDesc_click 5 (Rejected (Api_error ''HTTP 502'')) page_B) = Edit_description (Fin 7)
   \<and> href (btnIng_click 5 (Fulfilled Truthy_primitive) page_B) = Edit_ingredients (Fin 7)
   \<and> readDraft (btnDesc_click 5 Pending page_B)
       = Some \<lparr>d_title = Some (js ''B''), d_category = Fin 1, d_ts = Some 5\<rparr>"
proof -
  have h: "href page_B = Edit_recipe" "recipeId page_B = Fin 7"
    by (simp_all add: example_defs)
  have w: "readDraft (writeDraft 5 page_B)
       = Some \<lparr>d_title = Some (js ''B''), d_category = Fin 1, d_ts = Some 5\<rparr>"
    by (simp add: example_defs storage_defs writeDraft_def JSON_stringify_def category_number_def
      trim_examples Let_def)
  from handoff_navigates_after_put_settles [of 5 Pending page_B] h
  have 1: "href (btnDesc_click 5 Pending page_B) = Edit_recipe"
    and s: "sessionStorage (btnDesc_click 5 Pending page_B) = sessionStorage (writeDraft 5 page_B)"
      "localStorage (btnDesc_click 5 Pending page_B) = localStorage (writeDraft 5 page_B)"
    by simp_all
  have r: "recipeId (btnDesc_click 5 Pending page_B) = recipeId (writeDraft 5 page_B)"
    by (simp add: btnDesc_click_def putDraftToRedis_eq Let_def)
  from readDraft_cong [OF r s] w
  have 2: "readDraft (btnDesc_click 5 Pending page_B)
       = Some \<lparr>d_title = Some (js ''B''), d_category = Fin 1, d_ts = Some 5\<rparr>"
    by simp
  from handoff_navigates_after_put_settles [of 5 "Rejected (Api_error ''HTTP 502'')" page_B] h
  have 3: "href (btnDesc_click 5 (Rejected (Api_error ''HTTP 502'')) page_B)
      = Edit_description (Fin 7)"
    by simp
  from handoff_navigates_after_put_settles [of 5 "Fulfilled Truthy_primitive" page_B] h
  have 4: "href (btnIng_click 5 (Fulfilled Truthy_primitive) page_B) = Edit_ingredients (Fin 7)"
    by simp
  from 1 2 3 4 show ?thesis
    by simp
qed

subsection \<open>C5: the order of the overlays in \<^verbatim>\<open>load\<close>\<close>

text \<open>
  C5. When \<^verbatim>\<open>load\<close> gets the category list and the recipe and the request for the
  server-side draft settles, \<^verbatim>\<open>load\<close> is fulfilled; the requests went out in the order
  categories and recipe, then server-side draft; the title of the form is the title the
  server-side draft defines, else the title the stored draft defines, else the title of
  the recipe (the empty string if it has none); the options of the select are those of
  the category list; and the selected category is the category the server-side draft
  defines, else the category the stored draft defines, else the category of the recipe
  if it is in the list, and none otherwise. A draft defines a title when its title is a
  string that is not blank, and a category when its category is not 0 and is the value
  of an option.
\<close>

theorem load_overlay_order:
  assumes "truthy (recipeId p)" and "tg_present p" and "initData p" and "remote \<noteq> Pending"
  shows "fst (load (Fulfilled (Array cs, rc)) remote now p) = Fulfilled ()
     \<and> requests (snd (load (Fulfilled (Array cs, rc)) remote now p)) =
         requests p @ [GET_categories, GET_recipe (recipeId p), GET_draft (recipeId p)]
     \<and> title_value (snd (load (Fulfilled (Array cs, rc)) remote now p)) =
         (case defined_title (remote_draft remote) of
            Some t \<Rightarrow> t
          | None \<Rightarrow>
            (case defined_title (local_draft p) of
               Some t \<Rightarrow> t
             | None \<Rightarrow> (case r_title rc of None \<Rightarrow> [] | Some s \<Rightarrow> s)))
     \<and> category_options (snd (load (Fulfilled (Array cs, rc)) remote now p)) = map fst cs
     \<and> category_value (snd (load (Fulfilled (Array cs, rc)) remote now p)) =
         (case defined_category (map fst cs) (remote_draft remote) of
            Some n \<Rightarrow> Some n
          | None \<Rightarrow>
            (case defined_category (map fst cs) (local_draft p) of
               Some n \<Rightarrow> Some n
             | None \<Rightarrow>
               (case r_category_id rc of
                  Fin n \<Rightarrow> if n \<in> fst ` set cs then Some n else None
                | NaN \<Rightarrow> None)))"
proof -
  from load_settled [OF assms, of cs rc now] obtain p8 where
    l: "load (Fulfilled (Array cs, rc)) remote now p =
           (Fulfilled (), if readDraft p = None then writeDraft now p8 else p8)"
    and p8: "p8 = overlay (remote_draft remote)
              ((overlay (local_draft p) (server_values cs rc p))
                 \<lparr>requests := requests p @
                    [GET_categories, GET_recipe (recipeId p), GET_draft (recipeId p)]\<rparr>)"
    by blast
  have t: "title_value p8 =
         (case defined_title (remote_draft remote) of
            Some t \<Rightarrow> t
          | None \<Rightarrow>
            (case defined_title (local_draft p) of
               Some t \<Rightarrow> t
             | None \<Rightarrow> (case r_title rc of None \<Rightarrow> [] | Some s \<Rightarrow> s)))"
    by (simp add: p8 overlay_title_value split: option.splits)
  have r: "requests p8 =
      requests p @ [GET_categories, GET_recipe (recipeId p), GET_draft (recipeId p)]"
    by (simp add: p8)
  have o: "category_options p8 = map fst cs"
    by (simp add: p8)
  have c: "category_value p8 =
         (case defined_category (map fst cs) (remote_draft remote) of
            Some n \<Rightarrow> Some n
          | None \<Rightarrow>
            (case defined_category (map fst cs) (local_draft p) of
               Some n \<Rightarrow> Some n
             | None \<Rightarrow>
               (case r_category_id rc of
                  Fin n \<Rightarrow> if n \<in> fst ` set cs then Some n else None
                | NaN \<Rightarrow> None)))"
    by (simp add: p8 overlay_category_value server_values_category split: option.splits)
  from t r o c show ?thesis
    by (simp add: l)
qed

text \<open>
  C5, example. The run of the claim: both storage areas empty, the server-side draft
  \<^verbatim>\<open>{title: "Remote Title"}\<close>, the recipe \<^verbatim>\<open>"Server Title"\<close> with category 3: the form shows
  \<^verbatim>\<open>"Remote Title"\<close> and category 3. Without the server-side draft it shows
  \<^verbatim>\<open>"Server Title"\<close>. Over the stored draft \<^verbatim>\<open>{title: "Kept Title", category_id: 2}\<close> it shows
  \<^verbatim>\<open>"Kept Title"\<close> and category 2 without a server-side draft, and \<^verbatim>\<open>"Remote Title"\<close> and
  category 1 with the server-side draft \<^verbatim>\<open>{title: "Remote Title", category_id: 1}\<close>. A stored
  draft whose title is a no-break space and whose category is 9 changes neither.
\<close>

theorem load_overlay_order_witness:
  "truthy (recipeId page0) \<and> tg_present page0 \<and> initData page0
   \<and> readDraft page0 = None
   \<and> r_title recipe_example = Some (js ''Server Title'')
   \<and> d_title draft_remote = Some (js ''Remote Title'')
   \<and> title_value (snd (load (Fulfilled (Array cats_example, recipe_example))
        (Fulfilled (Object draft_remote)) 5 page0)) = js ''Remote Title''
   \<and> category_value (snd (load (Fulfilled (Array cats_example, recipe_example))
        (Fulfilled (Object draft_remote)) 5 page0)) = Some 3
   \<and> title_value (snd (load (Fulfilled (Array cats_example, recipe_example))
        (Rejected (Api_error ''HTTP 404'')) 5 page0)) = js ''Server Title''
   \<and> category_value (snd (load (Fulfilled (Array cats_example, recipe_example))
        (Rejected (Api_error ''HTTP 404'')) 5 page0)) = Some 3
   \<and> title_value (snd (load (Fulfilled (Array cats_example, recipe_example))
        (Rejected (Api_error ''HTTP 404'')) 5 page_kept)) = js ''Kept Title''
   \<and> category_value (snd (load (Fulfilled (Array cats_example, recipe_example))
        (Rejected (Api_error ''HTTP 404'')) 5 page_kept)) = Some 2
   \<and> title_value (snd (load (Fulfilled (Array cats_example, recipe_example))
        (Fulfilled (Object draft_remote_1)) 5 page_kept)) = js ''Remote Title''
   \<and> category_value (snd (load (Fulfilled (Array cats_example, recipe_example))
        (Fulfilled (Object draft_remote_1)) 5 page_kept)) = Some 1
   \<and> title_value (snd (load (Fulfilled (Array cats_example, recipe_example))
        (Fulfilled (Object draft_foreign_nbsp)) 5 page0)) = js ''Server Title''
   \<and> category_value (snd (load (Fulfilled (Array cats_example, recipe_example))
        (Fulfilled (Object draft_foreign_nbsp)) 5 page0)) = Some 3"
proof -
  have h: "truthy (recipeId page0)" "tg_present page0" "initData page0"
    and hk: "truthy (recipeId page_kept)" "tg_present page_kept" "initData page_kept"
    and n: "Fulfilled (Object draft_remote) \<noteq> Pending"
      "Rejected (Api_error ''HTTP 404'') \<noteq> (Pending :: json outcome)"
      "Fulfilled (Object draft_remote_1) \<noteq> Pending"
      "Fulfilled (Object draft_foreign_nbsp) \<noteq> Pending"
    by (simp_all add: example_defs example2_defs)
  have r: "readDraft page0 = None" "readDraft page_kept = Some draft_kept"
    by (simp_all add: example_defs example2_defs storage_defs)
  have o: "map fst cats_example = [1, 2, 3]" "fst ` set cats_example = {1, 2, 3}"
    by (simp_all add: cats_example_def)
  have d: "defined_title (remote_draft (Fulfilled (Object draft_remote)))
      = Some (js ''Remote Title'')"
    "defined_title (remote_draft (Fulfilled (Object draft_remote_1)))
      = Some (js ''Remote Title'')"
    "defined_title (remote_draft (Fulfilled (Object draft_foreign_nbsp))) = None"
    "defined_title (remote_draft (Rejected (Api_error ''HTTP 404''))) = None"
    "defined_title (local_draft page0) = None"
    "defined_title (local_draft page_kept) = Some (js ''Kept Title'')"
    "r_title recipe_example = Some (js ''Server Title'')"
    "d_title draft_remote = Some (js ''Remote Title'')"
    by (simp_all add: defined_title_def remote_draft_def local_draft_def r empty_object_def
        draft_kept_def draft_remote_def draft_remote_1_def draft_foreign_nbsp_def
        recipe_example_def trim_examples trim_examples2)
  have c: "defined_category [1, 2, 3] (remote_draft (Fulfilled (Object draft_remote))) = None"
    "defined_category [1, 2, 3] (remote_draft (Fulfilled (Object draft_remote_1))) = Some 1"
    "defined_category [1, 2, 3] (remote_draft (Fulfilled (Object draft_foreign_nbsp))) = None"
    "defined_category [1, 2, 3] (remote_draft (Rejected (Api_error ''HTTP 404''))) = None"
    "defined_category [1, 2, 3] (local_draft page0) = None"
    "defined_category [1, 2, 3] (local_draft page_kept) = Some 2"
    "r_category_id recipe_example = Fin 3"
    by (simp_all add: defined_category_def remote_draft_def local_draft_def r empty_object_def
        draft_kept_def draft_remote_def draft_remote_1_def draft_foreign_nbsp_def
        recipe_example_def)
  from load_overlay_order [OF h n(1), of cats_example recipe_example 5] d c o
  have 1: "title_value (snd (load (Fulfilled (Array cats_example, recipe_example))
        (Fulfilled (Object draft_remote)) 5 page0)) = js ''Remote Title''"
    "category_value (snd (load (Fulfilled (Array cats_example, recipe_example))
        (Fulfilled (Object draft_remote)) 5 page0)) = Some 3"
    by simp_all
  from load_overlay_order [OF h n(2), of cats_example recipe_example 5] d c o
  have 2: "title_value (snd (load (Fulfilled (Array cats_example, recipe_example))
        (Rejected (Api_error ''HTTP 404'')) 5 page0)) = js ''Server Title''"
    "category_value (snd (load (Fulfilled (Array cats_example, recipe_example))
        (Rejected (Api_error ''HTTP 404'')) 5 page0)) = Some 3"
    by simp_all
  from load_overlay_order [OF hk n(2), of cats_example recipe_example 5] d c o
  have 3: "title_value (snd (load (Fulfilled (Array cats_example, recipe_example))
        (Rejected (Api_error ''HTTP 404'')) 5 page_kept)) = js ''Kept Title''"
    "category_value (snd (load (Fulfilled (Array cats_example, recipe_example))
        (Rejected (Api_error ''HTTP 404'')) 5 page_kept)) = Some 2"
    by simp_all
  from load_overlay_order [OF hk n(3), of cats_example recipe_example 5] d c o
  have 4: "title_value (snd (load (Fulfilled (Array cats_example, recipe_example))
        (Fulfilled (Object draft_remote_1)) 5 page_kept)) = js ''Remote Title''"
    "category_value (snd (load (Fulfilled (Array cats_example, recipe_example))
        (Fulfilled (Object draft_remote_1)) 5 page_kept)) = Some 1"
    by simp_all
  from load_overlay_order [OF h n(4), of cats_example recipe_example 5] d c o
  have 5: "title_value (snd (load (Fulfilled (Array cats_example, recipe_example))
        (Fulfilled (Object draft_foreign_nbsp)) 5 page0)) = js ''Server Title''"
    "category_value (snd (load (Fulfilled (Array cats_example, recipe_example))
        (Fulfilled (Object draft_foreign_nbsp)) 5 page0)) = Some 3"
    by simp_all
  from h r(1) d(7,8) 1 2 3 4 5 show ?thesis
    by simp
qed

subsection \<open>C6: the escalation stops where the title is found\<close>

text \<open>
  C6. On \<^verbatim>\<open>pageshow\<close>, and on \<^verbatim>\<open>visibilitychange\<close> to visible, with a blank title in the form:
  when the stored draft has a title that is not blank, the handler puts that title into
  the form and sends no request (no read of the server-side draft, no reload). When the
  stored draft does not help and the server-side draft has such a title, the handler
  takes that title and the only request is the \<^verbatim>\<open>GET\<close> of the server-side draft.
\<close>

theorem escalation_stops_at_first_title:
  "(title_blank p \<and> readDraft p = Some d \<and> d_title d = Some t \<and> trim t \<noteq> [] \<longrightarrow>
       title_value (pageshow a p) = t \<and> requests (pageshow a p) = requests p
     \<and> title_value (visibilitychange False a p) = t
     \<and> requests (visibilitychange False a p) = requests p)
   \<and> (title_blank (restoreDraftIntoForm p) \<and> a_draft a = Fulfilled (Object d')
        \<and> d_title d' = Some t' \<and> trim t' \<noteq> [] \<longrightarrow>
       title_value (pageshow a p) = t'
     \<and> requests (pageshow a p) = requests p @ [GET_draft (recipeId p)]
     \<and> title_value (visibilitychange False a p) = t'
     \<and> requests (visibilitychange False a p) = requests p @ [GET_draft (recipeId p)])"
proof -
  have 1: "title_value (pageshow a p) = t \<and> requests (pageshow a p) = requests p"
    if "readDraft p = Some d" "d_title d = Some t" "trim t \<noteq> []"
  proof -
    from that have "title_value (restoreDraftIntoForm p) = t"
      by (simp add: restoreDraftIntoForm_overlay overlay_title)
    with that(3) show ?thesis
      by (simp add: pageshow_no_escalation title_blank_def)
  qed
  have 2: "title_value (pageshow a p) = t'
     \<and> requests (pageshow a p) = requests p @ [GET_draft (recipeId p)]"
    if "title_blank (restoreDraftIntoForm p)" "a_draft a = Fulfilled (Object d')"
      "d_title d' = Some t'" "trim t' \<noteq> []"
    using that by (simp add: pageshow_remote overlay_title)
  from 1 2 show ?thesis
    by (simp add: visibilitychange_pageshow)
qed

text \<open>
  C6, example. A form whose title is a no-break space (blank) over the stored title
  \<^verbatim>\<open>"Kept Title"\<close>: the title is restored and nothing is requested. A blank form over a
  stored draft whose title is a no-break space: the stored title is not taken, the
  handler asks for the server-side draft, takes its title \<^verbatim>\<open>"Remote Title"\<close>, and does not
  reload.
\<close>

theorem escalation_stops_at_first_title_witness:
  "title_value page_kept_nbsp = [0xA0] \<and> title_blank page_kept_nbsp
   \<and> readDraft page_kept_nbsp = Some draft_kept
   \<and> title_value (pageshow answers_remote page_kept_nbsp) = js ''Kept Title''
   \<and> requests (pageshow answers_remote page_kept_nbsp) = []
   \<and> requests (visibilitychange False answers_remote page_kept_nbsp) = []
   \<and> readDraft page_nbsp_draft = Some draft_nbsp \<and> d_title draft_nbsp = Some [0xA0]
   \<and> title_blank (restoreDraftIntoForm page_nbsp_draft)
   \<and> title_value (pageshow answers_remote page_nbsp_draft) = js ''Remote Title''
   \<and> requests (pageshow answers_remote page_nbsp_draft) = [GET_draft (Fin 7)]"
proof -
  have k: "title_value page_kept_nbsp = [0xA0]" "title_blank page_kept_nbsp"
    "readDraft page_kept_nbsp = Some draft_kept"
    "d_title draft_kept = Some (js ''Kept Title'')" "trim (js ''Kept Title'') \<noteq> []"
    "requests page_kept_nbsp = []"
    by (simp_all add: example_defs example2_defs example3_defs storage_defs title_blank_def
        trim_examples trim_examples2)
  have z: "readDraft page_nbsp_draft = Some draft_nbsp" "d_title draft_nbsp = Some [0xA0]"
    "title_value page_nbsp_draft = []" "requests page_nbsp_draft = []"
    "recipeId page_nbsp_draft = Fin 7"
    by (simp_all add: example_defs example3_defs storage_defs)
  have b: "title_blank (restoreDraftIntoForm page_nbsp_draft)"
    by (simp add: restoreDraftIntoForm_overlay z overlay_def draft_nbsp_def title_blank_def
        trim_examples)
  have r: "a_draft answers_remote = Fulfilled (Object draft_remote)"
    "d_title draft_remote = Some (js ''Remote Title'')" "trim (js ''Remote Title'') \<noteq> []"
    by (simp_all add: example2_defs trim_examples2)
  from escalation_stops_at_first_title
    [of page_kept_nbsp draft_kept "js ''Kept Title''" answers_remote draft_remote
      "js ''Remote Title''"] k
  have 1: "title_value (pageshow answers_remote page_kept_nbsp) = js ''Kept Title''"
    "requests (pageshow answers_remote page_kept_nbsp) = []"
    "requests (visibilitychange False answers_remote page_kept_nbsp) = []"
    by simp_all
  from escalation_stops_at_first_title
    [of page_nbsp_draft draft_kept "js ''Kept Title''" answers_remote draft_remote
      "js ''Remote Title''"] b r z
  have 2: "title_value (pageshow answers_remote page_nbsp_draft) = js ''Remote Title''"
    "requests (pageshow answers_remote page_nbsp_draft) = [GET_draft (Fin 7)]"
    by simp_all
  from k(1-3) z(1,2) b 1 2 show ?thesis
    by simp
qed

subsection \<open>C7: a duplicate trigger\<close>

text \<open>
  C7, as stated, says that a second trigger for the same transition starts no fetch that
  a single one would not. Neither handler awaits, and nothing in the script records that
  an escalation is under way: with a blank form, empty storage and no server-side draft,
  one handler sends one \<^verbatim>\<open>GET\<close> of the draft and then one pair of requests of \<^verbatim>\<open>load\<close>; two
  handlers that both return before their requests settle send two \<^verbatim>\<open>GET\<close>s of the draft,
  and each continuation, finding the title still blank, starts \<^verbatim>\<open>load\<close>: the recipe is
  requested twice.
\<close>

theorem duplicate_trigger_fetches_twice_counterexample:
  "title_blank (restoreDraftIntoForm page0)
   \<and> pageshow answers_none page0 = handler_continues answers_none (handler_sync page0)
   \<and> requests (handler_continues answers_none (handler_sync page0))
       = [GET_draft (Fin 7), GET_categories, GET_recipe (Fin 7)]
   \<and> requests (handler_sync (handler_sync page0)) = [GET_draft (Fin 7), GET_draft (Fin 7)]
   \<and> requests (handler_continues answers_none
        (handler_continues answers_none (handler_sync (handler_sync page0))))
       = [GET_draft (Fin 7), GET_draft (Fin 7), GET_categories, GET_recipe (Fin 7),
          GET_categories, GET_recipe (Fin 7)]"
proof -
  have z: "readDraft page0 = None"
    by (simp add: example_defs storage_defs)
  then have r: "restoreDraftIntoForm page0 = page0"
    by (simp add: restoreDraftIntoForm_overlay)
  have f: "requests page0 = []" "recipeId page0 = Fin 7" "tg_present page0" "initData page0"
    "title_value page0 = []"
    by (simp_all add: example_defs)
  have b: "title_blank page0"
    by (simp add: f title_blank_def trim_examples)
  have 0: "title_blank (restoreDraftIntoForm page0)"
    by (simp add: r b)
  have 1: "handler_sync page0 = page0\<lparr>requests := [GET_draft (Fin 7)]\<rparr>"
    by (simp add: handler_sync_eq r b f)
  have 2: "handler_sync (handler_sync page0)
      = page0\<lparr>requests := [GET_draft (Fin 7), GET_draft (Fin 7)]\<rparr>"
    by (simp add: handler_sync_twice r b f)
  have 3: "handler_continues answers_none (page0\<lparr>requests := [GET_draft (Fin 7)]\<rparr>)
      = (setBusy True page0)
          \<lparr>requests := [GET_draft (Fin 7), GET_categories, GET_recipe (Fin 7)]\<rparr>"
    by (simp add: handler_continues_load_pending f b setBusy_def)
  have 4: "handler_continues answers_none
        (page0\<lparr>requests := [GET_draft (Fin 7), GET_draft (Fin 7)]\<rparr>)
      = (setBusy True page0)
          \<lparr>requests := [GET_draft (Fin 7), GET_draft (Fin 7), GET_categories,
             GET_recipe (Fin 7)]\<rparr>"
    by (simp add: handler_continues_load_pending f b setBusy_def)
  have 5: "handler_continues answers_none ((setBusy True page0)
          \<lparr>requests := [GET_draft (Fin 7), GET_draft (Fin 7), GET_categories,
             GET_recipe (Fin 7)]\<rparr>)
      = (setBusy True page0)
          \<lparr>requests := [GET_draft (Fin 7), GET_draft (Fin 7), GET_categories,
             GET_recipe (Fin 7), GET_categories, GET_recipe (Fin 7)]\<rparr>"
    by (simp add: handler_continues_load_pending f title_blank_def trim_examples setBusy_def)
  have p: "pageshow answers_none page0 = handler_continues answers_none (handler_sync page0)"
    by (simp add: pageshow_in_two_steps 0)
  have a: "requests (handler_continues answers_none (handler_sync page0))
       = [GET_draft (Fin 7), GET_categories, GET_recipe (Fin 7)]"
    unfolding 1 3 by simp
  have c: "requests (handler_sync (handler_sync page0)) = [GET_draft (Fin 7), GET_draft (Fin 7)]"
    unfolding 2 by simp
  have d: "requests (handler_continues answers_none
        (handler_continues answers_none (handler_sync (handler_sync page0))))
       = [GET_draft (Fin 7), GET_draft (Fin 7), GET_categories, GET_recipe (Fin 7),
          GET_categories, GET_recipe (Fin 7)]"
    unfolding 2 4 5 by simp
  from 0 p a c d show ?thesis
    by blast
qed

text \<open>
  C7, amended. \<^verbatim>\<open>restoreDraftIntoForm\<close> run twice leaves the page that one run leaves; it
  does not touch the storage areas, so the stored draft is the same; and the check of the
  blank title comes out the same after the second run as after the first. When the title
  is not blank after the overlay, a handler is the overlay alone, a second handler
  changes nothing and no request is sent. When the title is blank after the overlay, each
  handler sends its own \<^verbatim>\<open>GET\<close> of the server-side draft: two handlers leave the form and the
  storage as one does and send that request twice. Each continuation that finds the
  title blank once its request has settled starts \<^verbatim>\<open>load\<close>, whatever else is under way.
\<close>

theorem duplicate_trigger_restores_once_escalates_twice:
  "restoreDraftIntoForm (restoreDraftIntoForm p) = restoreDraftIntoForm p
   \<and> sessionStorage (restoreDraftIntoForm p) = sessionStorage p
   \<and> localStorage (restoreDraftIntoForm p) = localStorage p
   \<and> readDraft (restoreDraftIntoForm p) = readDraft p
   \<and> title_blank (restoreDraftIntoForm (restoreDraftIntoForm p))
       = title_blank (restoreDraftIntoForm p)
   \<and> (\<not> title_blank (restoreDraftIntoForm p) \<longrightarrow>
         handler_sync p = restoreDraftIntoForm p
       \<and> handler_sync (handler_sync p) = handler_sync p
       \<and> requests (handler_sync (handler_sync p)) = requests p)
   \<and> (title_blank (restoreDraftIntoForm p) \<longrightarrow>
         handler_sync p =
           (restoreDraftIntoForm p)\<lparr>requests := requests p @ [GET_draft (recipeId p)]\<rparr>
       \<and> handler_sync (handler_sync p) =
           (restoreDraftIntoForm p)
             \<lparr>requests := requests p @ [GET_draft (recipeId p), GET_draft (recipeId p)]\<rparr>)
   \<and> (truthy (recipeId q) \<and> tg_present q \<and> initData q \<and> a_draft a \<noteq> Pending
        \<and> title_blank (draft_settles (a_draft a) q) \<and> a_load_both a = Pending \<longrightarrow>
         requests (handler_continues a q) =
           requests q @ [GET_categories, GET_recipe (recipeId q)])"
proof -
  have r: "readDraft (restoreDraftIntoForm p) = readDraft p"
    by (rule readDraft_cong) simp_all
  have i: "restoreDraftIntoForm (restoreDraftIntoForm p) = restoreDraftIntoForm p"
    by (rule restoreDraftIntoForm_idem)
  have s: "sessionStorage (restoreDraftIntoForm p) = sessionStorage p"
    and l: "localStorage (restoreDraftIntoForm p) = localStorage p"
    by simp_all
  have t: "title_blank (restoreDraftIntoForm (restoreDraftIntoForm p))
       = title_blank (restoreDraftIntoForm p)"
    by (simp add: i)
  have n: "\<not> title_blank (restoreDraftIntoForm p) \<longrightarrow>
         handler_sync p = restoreDraftIntoForm p
       \<and> handler_sync (handler_sync p) = handler_sync p
       \<and> requests (handler_sync (handler_sync p)) = requests p"
  proof
    assume "\<not> title_blank (restoreDraftIntoForm p)"
    then show "handler_sync p = restoreDraftIntoForm p
       \<and> handler_sync (handler_sync p) = handler_sync p
       \<and> requests (handler_sync (handler_sync p)) = requests p"
      by (simp add: handler_sync_twice) (simp add: handler_sync_eq)
  qed
  have b: "title_blank (restoreDraftIntoForm p) \<longrightarrow>
         handler_sync p =
           (restoreDraftIntoForm p)\<lparr>requests := requests p @ [GET_draft (recipeId p)]\<rparr>
       \<and> handler_sync (handler_sync p) =
           (restoreDraftIntoForm p)
             \<lparr>requests := requests p @ [GET_draft (recipeId p), GET_draft (recipeId p)]\<rparr>"
  proof
    assume "title_blank (restoreDraftIntoForm p)"
    then show "handler_sync p =
           (restoreDraftIntoForm p)\<lparr>requests := requests p @ [GET_draft (recipeId p)]\<rparr>
       \<and> handler_sync (handler_sync p) =
           (restoreDraftIntoForm p)
             \<lparr>requests := requests p @ [GET_draft (recipeId p), GET_draft (recipeId p)]\<rparr>"
      by (simp add: handler_sync_twice) (simp add: handler_sync_eq)
  qed
  have c: "truthy (recipeId q) \<and> tg_present q \<and> initData q \<and> a_draft a \<noteq> Pending
        \<and> title_blank (draft_settles (a_draft a) q) \<and> a_load_both a = Pending \<longrightarrow>
         requests (handler_continues a q) =
           requests q @ [GET_categories, GET_recipe (recipeId q)]"
    by (auto intro: handler_continues_loads)
  show ?thesis
    using i s l r t n b c by (intro conjI) assumption+
qed


text \<open>
  C7, example. The blank form over the stored title \<^verbatim>\<open>"Kept Title"\<close>: a second handler
  changes nothing and nothing is requested. The blank form with empty storage: one
  handler sends one \<^verbatim>\<open>GET\<close> of the draft, two send two and leave the same form; the
  continuation of a handler whose request found no draft starts \<^verbatim>\<open>load\<close>.
\<close>

theorem duplicate_trigger_restores_once_escalates_twice_witness:
  "\<not> title_blank (restoreDraftIntoForm page_kept)
   \<and> handler_sync (handler_sync page_kept) = handler_sync page_kept
   \<and> requests (handler_sync (handler_sync page_kept)) = []
   \<and> title_blank (restoreDraftIntoForm page0)
   \<and> requests (handler_sync page0) = [GET_draft (Fin 7)]
   \<and> requests (handler_sync (handler_sync page0)) = [GET_draft (Fin 7), GET_draft (Fin 7)]
   \<and> title_value (handler_sync (handler_sync page0)) = title_value (handler_sync page0)
   \<and> category_value (handler_sync (handler_sync page0)) = category_value (handler_sync page0)
   \<and> title_blank (draft_settles (a_draft answers_none) (handler_sync page0))
   \<and> requests (handler_continues answers_none (handler_sync page0))
       = [GET_draft (Fin 7), GET_categories, GET_recipe (Fin 7)]"
proof -
  have k: "readDraft page_kept = Some draft_kept" "requests page_kept = []"
    by (simp_all add: example_defs example2_defs storage_defs)
  have "title_value (restoreDraftIntoForm page_kept) = js ''Kept Title''"
    by (simp add: restoreDraftIntoForm_overlay k overlay_def draft_kept_def trim_examples2)
  then have n: "\<not> title_blank (restoreDraftIntoForm page_kept)"
    by (simp add: title_blank_def trim_examples2)
  from duplicate_trigger_restores_once_escalates_twice [of page_kept page0 answers_none] n
  have 1: "handler_sync (handler_sync page_kept) = handler_sync page_kept"
    and 2: "requests (handler_sync (handler_sync page_kept)) = requests page_kept"
    by blast+
  have z: "readDraft page0 = None" "title_blank page0" "requests page0 = []"
    "recipeId page0 = Fin 7" "tg_present page0" "initData page0"
    by (simp_all add: example_defs storage_defs title_blank_def trim_examples)
  then have r: "restoreDraftIntoForm page0 = page0"
    by (simp add: restoreDraftIntoForm_overlay)
  have b: "title_blank (restoreDraftIntoForm page0)"
    by (simp add: r z)
  let ?s = "handler_sync page0"
  from duplicate_trigger_restores_once_escalates_twice [of page0 ?s answers_none] b
  have 3: "?s = (restoreDraftIntoForm page0)
        \<lparr>requests := requests page0 @ [GET_draft (recipeId page0)]\<rparr>"
    and 4: "handler_sync ?s = (restoreDraftIntoForm page0)
        \<lparr>requests := requests page0 @ [GET_draft (recipeId page0), GET_draft (recipeId page0)]\<rparr>"
    by blast+
  have 5: "requests ?s = [GET_draft (Fin 7)]"
    "requests (handler_sync ?s) = [GET_draft (Fin 7), GET_draft (Fin 7)]"
    "title_value (handler_sync ?s) = title_value ?s"
    "category_value (handler_sync ?s) = category_value ?s"
    unfolding 4 unfolding 3 by (simp_all add: z)
  have h: "truthy (recipeId ?s)" "tg_present ?s" "initData ?s" "a_draft answers_none \<noteq> Pending"
    "title_blank (draft_settles (a_draft answers_none) ?s)" "a_load_both answers_none = Pending"
    unfolding 3 r by (simp_all add: z answers_none_def draft_settles_def)
  from duplicate_trigger_restores_once_escalates_twice [of page0 ?s answers_none] h
  have "requests (handler_continues answers_none ?s)
      = requests ?s @ [GET_categories, GET_recipe (recipeId ?s)]"
    by blast
  then have 6: "requests (handler_continues answers_none ?s)
       = [GET_draft (Fin 7), GET_categories, GET_recipe (Fin 7)]"
    unfolding 3 r by (simp add: z)
  from n 1 2 k(2) b 5 h(5) 6 show ?thesis
    by (intro conjI) simp_all
qed

subsection \<open>C8: an invalid form is rejected before any request\<close>

text \<open>
  C8. When the trimmed title of the form is empty or its category is 0, \<^verbatim>\<open>save\<close> is rejected
  with the validation error (the empty title first), no request is sent and the storage
  areas are unchanged; the click handler shows that error and has sent no request either.
\<close>

theorem save_rejects_blank_form_locally:
  assumes "title_blank p \<or> \<not> truthy (category_number p)"
  shows "fst (save answer p) = Rejected (if title_blank p then Title_empty else Category_not_chosen)
     \<and> requests (snd (save answer p)) = requests p
     \<and> sessionStorage (snd (save answer p)) = sessionStorage p
     \<and> localStorage (snd (save answer p)) = localStorage p
     \<and> err_text (save_click answer p)
         = Failure (if title_blank p then Title_empty else Category_not_chosen)
     \<and> requests (save_click answer p) = requests p
     \<and> sessionStorage (save_click answer p) = sessionStorage p
     \<and> localStorage (save_click answer p) = localStorage p"
  using assms by (simp add: save_rejected_locally save_click_def)

text \<open>
  C8, example. A title of a no-break space and a space: the empty-title error and no
  request. The title \<^verbatim>\<open>"B"\<close> with no category selected: the category error and no
  request. A no-break space as the title with category 1: the empty-title error, no
  request, and the stored draft is still there.
\<close>

theorem save_rejects_blank_form_locally_witness:
  "title_blank page_blank
   \<and> fst (save (Fulfilled Truthy_primitive) page_blank) = Rejected Title_empty
   \<and> requests (save_click (Fulfilled Truthy_primitive) page_blank) = []
   \<and> err_text (save_click (Fulfilled Truthy_primitive) page_blank) = Failure Title_empty
   \<and> \<not> title_blank page_no_category \<and> \<not> truthy (category_number page_no_category)
   \<and> fst (save (Fulfilled Truthy_primitive) page_no_category) = Rejected Category_not_chosen
   \<and> requests (save_click (Fulfilled Truthy_primitive) page_no_category) = []
   \<and> title_value page_nbsp = [0xA0] \<and> title_blank page_nbsp
   \<and> fst (save (Fulfilled Truthy_primitive) page_nbsp) = Rejected Title_empty
   \<and> requests (save_click (Fulfilled Truthy_primitive) page_nbsp) = []
   \<and> readDraft (save_click (Fulfilled Truthy_primitive) page_nbsp) = Some draft_A1"
proof -
  have b: "title_blank page_blank" "requests page_blank = []"
    and n: "\<not> title_blank page_no_category" "\<not> truthy (category_number page_no_category)"
      "requests page_no_category = []"
    by (simp_all add: example_defs title_blank_def category_number_def trim_examples)
  from save_rejects_blank_form_locally [of page_blank "Fulfilled Truthy_primitive"] b
  have 1: "fst (save (Fulfilled Truthy_primitive) page_blank) = Rejected Title_empty"
    "requests (save_click (Fulfilled Truthy_primitive) page_blank) = []"
    "err_text (save_click (Fulfilled Truthy_primitive) page_blank) = Failure Title_empty"
    by simp_all
  from save_rejects_blank_form_locally [of page_no_category "Fulfilled Truthy_primitive"] n
  have 2: "fst (save (Fulfilled Truthy_primitive) page_no_category) = Rejected Category_not_chosen"
    "requests (save_click (Fulfilled Truthy_primitive) page_no_category) = []"
    by simp_all
  have u: "title_value page_nbsp = [0xA0]" "title_blank page_nbsp" "requests page_nbsp = []"
    "readDraft page_nbsp = Some draft_A1"
    by (simp_all add: example_defs example3_defs storage_defs title_blank_def trim_examples)
  from save_rejects_blank_form_locally [of page_nbsp "Fulfilled Truthy_primitive"] u
  have 3: "fst (save (Fulfilled Truthy_primitive) page_nbsp) = Rejected Title_empty"
    "requests (save_click (Fulfilled Truthy_primitive) page_nbsp) = []"
    and s: "sessionStorage (save_click (Fulfilled Truthy_primitive) page_nbsp)
        = sessionStorage page_nbsp"
      "localStorage (save_click (Fulfilled Truthy_primitive) page_nbsp) = localStorage page_nbsp"
    by simp_all
  have i: "recipeId (save_click (Fulfilled Truthy_primitive) page_nbsp) = recipeId page_nbsp"
    by (simp add: save_click_def save_rejected_locally u)
  from readDraft_cong [OF i s] u
  have 4: "readDraft (save_click (Fulfilled Truthy_primitive) page_nbsp) = Some draft_A1"
    by simp
  from b n 1 2 u 3 4 show ?thesis
    by simp
qed

subsection \<open>C9: the first load writes a draft\<close>

text \<open>
  C9, as stated, says that the draft written by the first load equals the form. The
  title of the draft is the trimmed title: when the recipe has the title \<^verbatim>\<open>"Borscht"\<close>
  followed by a no-break space (U+00A0), the form shows that title and the draft has
  \<^verbatim>\<open>"Borscht"\<close>.
\<close>

theorem load_bootstrap_trims_title_counterexample:
  "readDraft page0 = None
   \<and> title_value (snd (load (Fulfilled (Array cats_example, recipe_spaced))
        (Rejected (Api_error ''HTTP 404'')) 5 page0)) = (js ''Borscht'' @ [0xA0])
   \<and> readDraft (snd (load (Fulfilled (Array cats_example, recipe_spaced))
        (Rejected (Api_error ''HTTP 404'')) 5 page0))
       = Some \<lparr>d_title = Some (js ''Borscht''), d_category = Fin 2, d_ts = Some 5\<rparr>
   \<and> Some (js ''Borscht'') \<noteq> Some (js ''Borscht'' @ [0xA0])"
proof -
  have q: "snd (load (Fulfilled (Array cats_example, recipe_spaced))
        (Rejected (Api_error ''HTTP 404'')) 5 page0)
      = writeDraft 5 ((server_values cats_example recipe_spaced page0)
         \<lparr>requests := [GET_categories, GET_recipe (Fin 7), GET_draft (Fin 7)]\<rparr>)"
    by (simp add: load_example)
  show ?thesis
    unfolding q
    by (simp add: server_values_def cats_example_def recipe_spaced_def
      example_defs storage_defs writeDraft_def JSON_stringify_def category_number_def
      setBusy_def trim_examples3 Let_def)
qed

text \<open>
  C9, amended. When \<^verbatim>\<open>load\<close> gets the category list and the recipe, the request for the
  server-side draft settles, no draft is stored and both storage areas accept a write:
  \<^verbatim>\<open>load\<close> is fulfilled, and afterwards both storage areas hold one draft, the draft read
  next, whose title is the trimmed title of the form, whose category is the number of
  the selected category (0 when none is selected) and whose time stamp is the time of the
  write. When the server has no draft, the form shows the title of the recipe, and has
  the category of the recipe selected if it is in the category list and none otherwise.
\<close>

theorem load_bootstraps_draft:
  assumes "truthy (recipeId p)" and "tg_present p" and "initData p"
    and "readDraft p = None"
    and "writable (sessionStorage p)" and "writable (localStorage p)"
    and "remote \<noteq> Pending"
  shows "fst (load (Fulfilled (Array cs, rc)) remote now p) = Fulfilled ()
     \<and> (\<exists>d. items (sessionStorage (snd (load (Fulfilled (Array cs, rc)) remote now p)))
              (draftKey p) = Some (Text (Object d))
          \<and> items (localStorage (snd (load (Fulfilled (Array cs, rc)) remote now p)))
              (draftKey p) = Some (Text (Object d))
          \<and> readDraft (snd (load (Fulfilled (Array cs, rc)) remote now p)) = Some d
          \<and> d_title d = Some (trim (title_value (snd (load (Fulfilled (Array cs, rc)) remote now p))))
          \<and> d_category d = category_number (snd (load (Fulfilled (Array cs, rc)) remote now p))
          \<and> d_ts d = Some now)
     \<and> ((\<exists>e. remote = Rejected e) \<or> remote = Fulfilled Falsy \<longrightarrow>
          title_value (snd (load (Fulfilled (Array cs, rc)) remote now p))
            = (case r_title rc of None \<Rightarrow> [] | Some s \<Rightarrow> s)
        \<and> category_value (snd (load (Fulfilled (Array cs, rc)) remote now p))
            = (case r_category_id rc of
                 Fin n \<Rightarrow> if n \<in> fst ` set cs then Some n else None
               | NaN \<Rightarrow> None))"
proof -
  let ?q = "snd (load (Fulfilled (Array cs, rc)) remote now p)"
  from load_settled [OF assms(1-3,7), of cs rc now] assms(4) obtain p8 where
    l: "load (Fulfilled (Array cs, rc)) remote now p = (Fulfilled (), writeDraft now p8)"
    and p8: "p8 = overlay (remote_draft remote)
              ((overlay (local_draft p) (server_values cs rc p))
                 \<lparr>requests := requests p @
                    [GET_categories, GET_recipe (recipeId p), GET_draft (recipeId p)]\<rparr>)"
    by auto
  have f: "recipeId p8 = recipeId p" "sessionStorage p8 = sessionStorage p"
    "localStorage p8 = localStorage p"
    by (simp_all add: p8)
  have k: "draftKey p8 = draftKey p"
    using f(1) by (rule draftKey_cong)
  have r: "readDraft p8 = None"
    using readDraft_cong [OF f] assms(4) by simp
  let ?d = "\<lparr>d_title = Some (trim (title_value p8)), d_category = category_number p8,
     d_ts = Some now\<rparr>"
  have w: "writeDraft now p8 =
     p8\<lparr>sessionStorage := (sessionStorage p8)\<lparr>items := (items (sessionStorage p8))
          (draftKey p8 \<mapsto> Text (Object ?d))\<rparr>,
       localStorage := (localStorage p8)\<lparr>items := (items (localStorage p8))
          (draftKey p8 \<mapsto> Text (Object ?d))\<rparr>\<rparr>"
    using assms(1,5,6) r by (intro writeDraft_first) (simp_all add: f)
  have q: "?q = writeDraft now p8"
    by (simp add: l)
  have tq: "title_value ?q = title_value p8" and cq: "category_value ?q = category_value p8"
    and rq: "recipeId ?q = recipeId p"
    by (simp_all add: q f)
  have cn: "category_number ?q = category_number p8"
    using cq by (rule category_number_cong)
  have s: "items (sessionStorage ?q) (draftKey p) = Some (Text (Object ?d))"
    and lo: "items (localStorage ?q) (draftKey p) = Some (Text (Object ?d))"
    and nd: "\<not> denied (sessionStorage ?q)"
    using assms(5) by (simp_all add: q w k f writable_def)
  have rd: "readDraft ?q = Some ?d"
    using nd s draftKey_cong [OF rq] by (simp add: readDraft_tab_item)
  have ex: "\<exists>d. items (sessionStorage ?q) (draftKey p) = Some (Text (Object d))
          \<and> items (localStorage ?q) (draftKey p) = Some (Text (Object d))
          \<and> readDraft ?q = Some d
          \<and> d_title d = Some (trim (title_value ?q))
          \<and> d_category d = category_number ?q
          \<and> d_ts d = Some now"
    using s lo rd by (intro exI [of _ ?d]) (simp add: tq cn)
  have lc: "local_draft p = empty_object"
    by (simp add: local_draft_def assms(4))
  have ab: "title_value ?q = (case r_title rc of None \<Rightarrow> [] | Some s \<Rightarrow> s)
        \<and> category_value ?q
            = (case r_category_id rc of
                 Fin n \<Rightarrow> if n \<in> fst ` set cs then Some n else None
               | NaN \<Rightarrow> None)"
    if "(\<exists>e. remote = Rejected e) \<or> remote = Fulfilled Falsy"
  proof -
    from that have "remote_draft remote = empty_object"
      by (auto simp add: remote_draft_def)
    then show ?thesis
      by (simp add: tq cq p8 lc server_values_category)
  qed
  from ex ab show ?thesis
    by (simp add: l)
qed


text \<open>
  C9, example. The first load of recipe 7 with empty storage and no server-side draft: the form shows
  \<^verbatim>\<open>"Server Title"\<close> and category 3, and both storage areas hold that title and category.
\<close>

theorem load_bootstraps_draft_witness:
  "truthy (recipeId page0) \<and> tg_present page0 \<and> initData page0 \<and> readDraft page0 = None
   \<and> writable (sessionStorage page0) \<and> writable (localStorage page0)
   \<and> items (sessionStorage page0) (draftKey page0) = None
   \<and> items (localStorage page0) (draftKey page0) = None
   \<and> title_value (snd (load (Fulfilled (Array cats_example, recipe_example))
        (Rejected (Api_error ''HTTP 404'')) 5 page0)) = (js ''Server Title'')
   \<and> category_value (snd (load (Fulfilled (Array cats_example, recipe_example))
        (Rejected (Api_error ''HTTP 404'')) 5 page0)) = Some 3
   \<and> items (sessionStorage (snd (load (Fulfilled (Array cats_example, recipe_example))
        (Rejected (Api_error ''HTTP 404'')) 5 page0))) (draftKey page0)
       = Some (Text (Object \<lparr>d_title = Some (js ''Server Title''), d_category = Fin 3, d_ts = Some 5\<rparr>))
   \<and> items (localStorage (snd (load (Fulfilled (Array cats_example, recipe_example))
        (Rejected (Api_error ''HTTP 404'')) 5 page0))) (draftKey page0)
       = Some (Text (Object \<lparr>d_title = Some (js ''Server Title''), d_category = Fin 3, d_ts = Some 5\<rparr>))"
proof -
  let ?q = "snd (load (Fulfilled (Array cats_example, recipe_example))
        (Rejected (Api_error ''HTTP 404'')) 5 page0)"
  have h: "truthy (recipeId page0)" "tg_present page0" "initData page0" "readDraft page0 = None"
    "writable (sessionStorage page0)" "writable (localStorage page0)"
    "Rejected (Api_error ''HTTP 404'') \<noteq> (Pending :: json outcome)"
    and e: "items (sessionStorage page0) (draftKey page0) = None"
    "items (localStorage page0) (draftKey page0) = None"
    by (simp_all add: example_defs storage_defs)
  have v: "r_title recipe_example = Some (js ''Server Title'')" "r_category_id recipe_example = Fin 3"
    "3 \<in> fst ` set cats_example"
    by (simp_all add: recipe_example_def cats_example_def)
  from load_bootstraps_draft [OF h, of cats_example recipe_example 5] v
  have t: "title_value ?q = (js ''Server Title'')" and c: "category_value ?q = Some 3"
    and x: "\<exists>d. items (sessionStorage ?q) (draftKey page0) = Some (Text (Object d))
          \<and> items (localStorage ?q) (draftKey page0) = Some (Text (Object d))
          \<and> d_title d = Some (trim (title_value ?q))
          \<and> d_category d = category_number ?q
          \<and> d_ts d = Some 5"
    by auto
  from c have n: "category_number ?q = Fin 3"
    by (simp add: category_number_def)
  from x obtain d where
    d: "items (sessionStorage ?q) (draftKey page0) = Some (Text (Object d))"
      "items (localStorage ?q) (draftKey page0) = Some (Text (Object d))"
      "d_title d = Some (js ''Server Title'')" "d_category d = Fin 3" "d_ts d = Some 5"
    unfolding t n by (auto simp add: trim_examples2)
  then have "d = \<lparr>d_title = Some (js ''Server Title''), d_category = Fin 3, d_ts = Some 5\<rparr>"
    by simp
  with d(1,2) h e t c show ?thesis
    by simp
qed

subsection \<open>C10: restoring keeps the category among the options\<close>

text \<open>
  C10. Either restoring function leaves the value of the category select as it was, or
  sets it to the category of the draft, which then is the value of an option of the
  select; the options are not changed. A draft category that is not 0 and is the value
  of an option is applied.
\<close>

theorem restore_keeps_category_among_options:
  "(category_value (restoreDraftIntoForm p) = category_value p
      \<or> (\<exists>d n. readDraft p = Some d \<and> d_category d = Fin n \<and> n \<in> set (category_options p)
             \<and> category_value (restoreDraftIntoForm p) = Some n))
   \<and> category_options (restoreDraftIntoForm p) = category_options p
   \<and> (category_value (snd (restoreDraftFromRedisIntoForm answer p)) = category_value p
      \<or> (\<exists>d n. answer = Fulfilled (Object d) \<and> d_category d = Fin n
             \<and> n \<in> set (category_options p)
             \<and> category_value (snd (restoreDraftFromRedisIntoForm answer p)) = Some n))
   \<and> category_options (snd (restoreDraftFromRedisIntoForm answer p)) = category_options p
   \<and> (\<forall>d n. readDraft p = Some d \<and> d_category d = Fin n \<and> n \<noteq> 0
          \<and> n \<in> set (category_options p)
        \<longrightarrow> category_value (restoreDraftIntoForm p) = Some n)
   \<and> (\<forall>d n. answer = Fulfilled (Object d) \<and> d_category d = Fin n \<and> n \<noteq> 0
          \<and> n \<in> set (category_options p)
        \<longrightarrow> category_value (snd (restoreDraftFromRedisIntoForm answer p)) = Some n)"
proof -
  have o: "category_value (overlay d q) = category_value q
      \<or> (\<exists>n. d_category d = Fin n \<and> n \<in> set (category_options q)
             \<and> category_value (overlay d q) = Some n)" for d q
    by (simp add: overlay_def split: jsnum.splits)
  have 1: "category_value (restoreDraftIntoForm p) = category_value p
      \<or> (\<exists>d n. readDraft p = Some d \<and> d_category d = Fin n \<and> n \<in> set (category_options p)
             \<and> category_value (restoreDraftIntoForm p) = Some n)"
    using o [of _ p] by (cases "readDraft p") (simp_all add: restoreDraftIntoForm_overlay)
  have 2: "category_value (snd (restoreDraftFromRedisIntoForm answer p)) = category_value p
      \<or> (\<exists>d n. answer = Fulfilled (Object d) \<and> d_category d = Fin n
             \<and> n \<in> set (category_options p)
             \<and> category_value (snd (restoreDraftFromRedisIntoForm answer p)) = Some n)"
  proof (cases answer)
    case (Fulfilled j)
    then show ?thesis
      using o [of _ "p\<lparr>requests := requests p @ [GET_draft (recipeId p)]\<rparr>"]
      by (cases j)
        (simp_all add: restoreDraftFromRedisIntoForm_overlay overlay_def empty_object_def)
  qed (simp_all add: restoreDraftFromRedisIntoForm_overlay)
  have 3: "category_options (snd (restoreDraftFromRedisIntoForm answer p)) = category_options p"
    by (cases answer) (simp_all add: restoreDraftFromRedisIntoForm_overlay)
  have 4: "category_value (restoreDraftIntoForm p) = Some n"
    if "readDraft p = Some d" "d_category d = Fin n" "n \<noteq> 0" "n \<in> set (category_options p)"
    for d n
    using that by (simp add: restoreDraftIntoForm_overlay overlay_def)
  have 5: "category_value (snd (restoreDraftFromRedisIntoForm answer p)) = Some n"
    if "answer = Fulfilled (Object d)" "d_category d = Fin n" "n \<noteq> 0"
      "n \<in> set (category_options p)"
    for d n
    using that by (simp add: restoreDraftFromRedisIntoForm_overlay overlay_def)
  have 0: "category_options (restoreDraftIntoForm p) = category_options p"
    by simp
  from 0 1 2 3 4 5 show ?thesis
    by blast
qed


text \<open>
  C10, example. With the options 1, 2, 3 and category 1 selected: a draft with category 9 leaves 1
  selected (its title is still restored); a draft with category 2 selects 2.
\<close>

theorem restore_keeps_category_among_options_witness:
  "readDraft page_foreign = Some draft_foreign \<and> d_category draft_foreign = Fin 9
   \<and> 9 \<notin> set (category_options page_foreign)
   \<and> category_value (restoreDraftIntoForm page_foreign) = category_value page_foreign
   \<and> title_value (restoreDraftIntoForm page_foreign) = (js ''X'')
   \<and> category_value (snd (restoreDraftFromRedisIntoForm (Fulfilled (Object draft_foreign)) page0))
       = category_value page0
   \<and> readDraft page_kept = Some draft_kept \<and> d_category draft_kept = Fin 2
   \<and> 2 \<in> set (category_options page_kept)
   \<and> category_value (restoreDraftIntoForm page_kept) = Some 2
   \<and> category_value (snd (restoreDraftFromRedisIntoForm (Fulfilled (Object draft_kept)) page0))
       = Some 2"
proof -
  have f: "readDraft page_foreign = Some draft_foreign" "d_category draft_foreign = Fin 9"
    "9 \<notin> set (category_options page_foreign)" "9 \<notin> set (category_options page0)"
    and k: "readDraft page_kept = Some draft_kept" "d_category draft_kept = Fin 2"
    "2 \<in> set (category_options page_kept)" "2 \<in> set (category_options page0)"
    by (simp_all add: example_defs example2_defs storage_defs)
  have t: "title_value (restoreDraftIntoForm page_foreign) = (js ''X'')"
    by (simp add: restoreDraftIntoForm_overlay f overlay_def draft_foreign_def trim_examples2)
  from restore_keeps_category_among_options
    [of page_foreign "Fulfilled (Object draft_foreign)"] f
  have 1: "category_value (restoreDraftIntoForm page_foreign) = category_value page_foreign"
    by auto
  from restore_keeps_category_among_options [of page0 "Fulfilled (Object draft_foreign)"] f
  have 2: "category_value (snd (restoreDraftFromRedisIntoForm
        (Fulfilled (Object draft_foreign)) page0)) = category_value page0"
    by auto
  from restore_keeps_category_among_options [of page_kept "Fulfilled (Object draft_kept)"] k
  have 3: "category_value (restoreDraftIntoForm page_kept) = Some 2"
    by auto
  from restore_keeps_category_among_options [of page0 "Fulfilled (Object draft_kept)"] k
  have 4: "category_value (snd (restoreDraftFromRedisIntoForm
        (Fulfilled (Object draft_kept)) page0)) = Some 2"
    by auto
  from f k t 1 2 3 4 show ?thesis
    by simp
qed

end
